theory Spec2Isabelle
  imports Main
begin

text \<open>
  A model of \<^verbatim>\<open>OAuthTokenManager.ts\<close>: the token manager, the interactive authorization
  flow and \<open>authenticateOAuth\<close>. A function that reads or changes the outside (files,
  clock, listeners) takes the world and returns the new one; what the outside does, the
  answers of the network and the events at the listener, is the environment. An
  \<^verbatim>\<open>await\<close> is sequential composition. Console output is not modelled.
\<close>

section \<open>JavaScript results, truthiness and dynamic values\<close>

text \<open>
  A call of the source either returns a value or throws. Every \<^verbatim>\<open>throw\<close> and every
  run-time error of the source is the branch \<open>Throws\<close> of the model.
\<close>

datatype js_error = TypeError | SyntaxError | SystemError | Error string

datatype 'a js_result = Returns 'a | Throws js_error

text \<open>\<^verbatim>\<open>try { body } catch (error) { handler }\<close>\<close>

definition try_catch :: "'a js_result \<Rightarrow> (js_error \<Rightarrow> 'a js_result) \<Rightarrow> 'a js_result" where
  "try_catch body handler = (case body of Returns v \<Rightarrow> Returns v | Throws e \<Rightarrow> handler e)"

text \<open>
  Numbers are modelled as unbounded integers: the time stamps (epoch milliseconds),
  lifetimes in seconds, hours and minutes of the source are integers far inside the
  range in which a JavaScript number is exact. An optional field is an \<open>option\<close>,
  \<open>None\<close> being \<^verbatim>\<open>undefined\<close>. JavaScript's truthiness is written out: \<^verbatim>\<open>undefined\<close>,
  \<^verbatim>\<open>0\<close> and the empty string are falsy.
\<close>

definition truthy_number :: "int option \<Rightarrow> bool" where
  "truthy_number v = (case v of None \<Rightarrow> False | Some n \<Rightarrow> n \<noteq> 0)"

definition truthy_string :: "string option \<Rightarrow> bool" where
  "truthy_string v = (case v of None \<Rightarrow> False | Some s \<Rightarrow> s \<noteq> [])"

text \<open>
  Credentials reach the code as parsed JSON behind an unchecked cast, and the code probes
  their shape at run time, so they are modelled as JavaScript values. An object is a plain
  object: the list of its own properties, each key once, with \<^verbatim>\<open>Object.prototype\<close> behind
  it. \<open>JFunction\<close> is a function value, as the inherited methods are.
\<close>

datatype jsval =
    JUndefined
  | JNull
  | JBool bool
  | JNum int
  | JStr string
  | JArr "jsval list"
  | JObj "(string \<times> jsval) list"
  | JFunction

fun truthy :: "jsval \<Rightarrow> bool" where
  "truthy JUndefined = False"
| "truthy JNull = False"
| "truthy (JBool b) = b"
| "truthy (JNum n) = (n \<noteq> 0)"
| "truthy (JStr s) = (s \<noteq> [])"
| "truthy (JArr xs) = True"
| "truthy (JObj ps) = True"
| "truthy JFunction = True"

text \<open>
  The properties every object inherits from \<^verbatim>\<open>Object.prototype\<close>: its methods, and the
  accessor \<^verbatim>\<open>__proto__\<close>, whose value is the prototype, an object without the fields the
  code reads. An array inherits the methods of \<^verbatim>\<open>Array.prototype\<close> as well.
\<close>

definition Object_prototype_methods :: "string list" where
  "Object_prototype_methods =
     [''constructor'', ''hasOwnProperty'', ''isPrototypeOf'', ''propertyIsEnumerable'',
      ''toLocaleString'', ''toString'', ''valueOf'', ''__defineGetter__'',
      ''__defineSetter__'', ''__lookupGetter__'', ''__lookupSetter__'']"

definition Array_prototype_methods :: "string list" where
  "Array_prototype_methods =
     [''at'', ''concat'', ''copyWithin'', ''entries'', ''every'', ''fill'', ''filter'',
      ''find'', ''findIndex'', ''findLast'', ''findLastIndex'', ''flat'', ''flatMap'',
      ''forEach'', ''includes'', ''indexOf'', ''join'', ''keys'', ''lastIndexOf'', ''map'',
      ''pop'', ''push'', ''reduce'', ''reduceRight'', ''reverse'', ''shift'', ''slice'',
      ''some'', ''sort'', ''splice'', ''toReversed'', ''toSorted'', ''toSpliced'',
      ''unshift'', ''values'', ''with'']"

definition is_inherited :: "string \<Rightarrow> bool" where
  "is_inherited k = (k = ''__proto__'' \<or> k \<in> set Object_prototype_methods)"

definition js_inherited :: "string \<Rightarrow> jsval" where
  "js_inherited k =
     (if k = ''__proto__'' then JObj []
      else if k \<in> set Object_prototype_methods then JFunction
      else JUndefined)"

text \<open>
  The index a property key denotes in an array: a decimal numeral without a leading zero.
\<close>

definition digit_value :: "char \<Rightarrow> nat option" where
  "digit_value c = map_of
     [(CHR ''0'', 0), (CHR ''1'', 1), (CHR ''2'', 2), (CHR ''3'', 3), (CHR ''4'', 4),
      (CHR ''5'', 5), (CHR ''6'', 6), (CHR ''7'', 7), (CHR ''8'', 8), (CHR ''9'', 9)] c"

fun decimal :: "nat \<Rightarrow> string \<Rightarrow> nat option" where
  "decimal n [] = Some n"
| "decimal n (c # cs) =
     (case digit_value c of None \<Rightarrow> None | Some d \<Rightarrow> decimal (10 * n + d) cs)"

definition array_index :: "string \<Rightarrow> nat option" where
  "array_index k =
     (case k of
        [] \<Rightarrow> None
      | c # cs \<Rightarrow> if c = CHR ''0'' \<and> cs \<noteq> [] then None else decimal 0 k)"

text \<open>
  Property access \<^verbatim>\<open>v.k\<close> (and \<^verbatim>\<open>v[k]\<close> for a string key): a TypeError on \<^verbatim>\<open>null\<close>
  and \<^verbatim>\<open>undefined\<close>; for an object its own property, else the inherited one, else
  \<^verbatim>\<open>undefined\<close>; for an array its elements, \<^verbatim>\<open>length\<close> and the inherited methods. Of a
  primitive or a function only what it inherits from \<^verbatim>\<open>Object.prototype\<close> is modelled,
  not \<^verbatim>\<open>length\<close> or the methods of its own kind: none of them carries a field the
  code reads.
\<close>

fun js_get :: "jsval \<Rightarrow> string \<Rightarrow> jsval js_result" where
  "js_get JUndefined k = Throws TypeError"
| "js_get JNull k = Throws TypeError"
| "js_get (JObj ps) k = Returns (case map_of ps k of None \<Rightarrow> js_inherited k | Some v \<Rightarrow> v)"
| "js_get (JArr xs) k =
     Returns (case array_index k of
                Some i \<Rightarrow> if i < length xs then xs ! i else JUndefined
              | None \<Rightarrow>
                  if k = ''length'' then JNum (int (length xs))
                  else if k \<in> set Array_prototype_methods then JFunction
                  else js_inherited k)"
| "js_get v k = Returns (js_inherited k)"

text \<open>
  \<^verbatim>\<open>k in v\<close>: own and inherited properties of an object, an array or a function; a
  TypeError for every other value.
\<close>

fun js_in :: "string \<Rightarrow> jsval \<Rightarrow> bool js_result" where
  "js_in k (JObj ps) = Returns (k \<in> fst ` set ps \<or> is_inherited k)"
| "js_in k (JArr xs) =
     Returns (case array_index k of
                Some i \<Rightarrow> i < length xs
              | None \<Rightarrow> k = ''length'' \<or> k \<in> set Array_prototype_methods \<or> is_inherited k)"
| "js_in k JFunction = Returns (is_inherited k)"
| "js_in k v = Throws TypeError"

text \<open>\<^verbatim>\<open>v[0]\<close>\<close>

fun js_index0 :: "jsval \<Rightarrow> jsval js_result" where
  "js_index0 JUndefined = Throws TypeError"
| "js_index0 JNull = Throws TypeError"
| "js_index0 (JArr xs) = Returns (case xs of [] \<Rightarrow> JUndefined | x # _ \<Rightarrow> x)"
| "js_index0 (JStr s) = Returns (case s of [] \<Rightarrow> JUndefined | c # _ \<Rightarrow> JStr [c])"
| "js_index0 (JObj ps) = Returns (case map_of ps ''0'' of None \<Rightarrow> JUndefined | Some v \<Rightarrow> v)"
| "js_index0 v = Returns JUndefined"

section \<open>Tokens, client and configuration\<close>

record OAuthToken =
  access_token :: string
  refresh_token :: "string option"
  expires_in :: int
  token_type :: string
  scope :: "string option"

record StoredOAuthToken = OAuthToken +
  expires_at :: "int option"
  created_at :: "int option"

text \<open>
  A token seen at the wider type: \<open>getValidToken\<close> returns either the stored record
  itself or a fresh \<open>OAuthToken\<close>, which as an object has neither time stamp.
\<close>

definition widen :: "OAuthToken \<Rightarrow> StoredOAuthToken" where
  "widen t = \<lparr>access_token = access_token t, refresh_token = refresh_token t,
     expires_in = expires_in t, token_type = token_type t, scope = scope t,
     expires_at = None, created_at = None\<rparr>"

record OAuthClient =
  clientId :: jsval
  clientSecret :: jsval
  tokenUri :: jsval

record TokenManagerOptions =
  tokenFileName :: "string option"
  tokenDirectory :: "string option"
  expirationBufferMinutes :: "int option"
  maxTokenLifetimeHours :: "int option"

record OAuthTokenManager =
  tokenPath :: string
  expirationBuffer :: int
  maxTokenLifetime :: "int option"

text \<open>\<^verbatim>\<open>path.join\<close> and \<^verbatim>\<open>path.dirname\<close>, without the normalisation of the segments.\<close>

definition path_join :: "string \<Rightarrow> string \<Rightarrow> string" where
  "path_join d f = d @ ''/'' @ f"

definition path_dirname :: "string \<Rightarrow> string" where
  "path_dirname p = rev (drop 1 (dropWhile (\<lambda>c. c \<noteq> CHR ''/'') (rev p)))"

text \<open>The constructor: \<^verbatim>\<open>x || d\<close> takes the default for every falsy \<open>x\<close>, also for 0.\<close>

definition new_OAuthTokenManager :: "TokenManagerOptions \<Rightarrow> OAuthTokenManager js_result" where
  "new_OAuthTokenManager options =
     (let fileName = (if truthy_string (tokenFileName options)
                      then the (tokenFileName options) else ''token.json'')
      in if \<not> truthy_string (tokenDirectory options)
         then Throws (Error ''tokenDirectory must be specified'')
         else Returns
           \<lparr>tokenPath = path_join (the (tokenDirectory options)) fileName,
            expirationBuffer =
              (if truthy_number (expirationBufferMinutes options)
               then the (expirationBufferMinutes options) else 5) * 60 * 1000,
            maxTokenLifetime =
              (if truthy_number (maxTokenLifetimeHours options)
               then Some (the (maxTokenLifetimeHours options) * 60 * 60 * 1000)
               else None)\<rparr>)"

section \<open>The world: files, clock, listeners\<close>

text \<open>
  A text file is modelled by what \<^verbatim>\<open>JSON.parse\<close> makes of it: either it is the JSON text
  of a value (what \<^verbatim>\<open>JSON.stringify\<close> writes), or \<^verbatim>\<open>JSON.parse\<close> rejects it.
  A path is missing, exists but cannot be read, or holds a text. Writing always succeeds:
  permissions on writing are outside the model.
\<close>

datatype 'v file_text = JSON_of 'v | Malformed

datatype 'v file_state = Missing | Unreadable | Holds "'v file_text"

definition JSON_stringify :: "'v \<Rightarrow> 'v file_text" where
  "JSON_stringify v = JSON_of v"

definition JSON_parse :: "'v file_text \<Rightarrow> 'v js_result" where
  "JSON_parse t = (case t of JSON_of v \<Rightarrow> Returns v | Malformed \<Rightarrow> Throws SyntaxError)"

text \<open>The options of \<open>getToken\<close>, and a request sent with \<^verbatim>\<open>fetch\<close>.\<close>

datatype prompt = none | consent | select_account

record AbortSignal =
  aborted :: bool

record OAuthGetTokenOptions =
  flow_scope :: string
  flow_timeoutSeconds :: "int option"
  flow_includeOfflineAccess :: "bool option"
  flow_loginHint :: "string option"
  flow_prompt :: "prompt option"
  flow_signal :: "AbortSignal option"

record request =
  url :: jsval
  form :: "(string \<times> jsval) list"

text \<open>
  The journal records, newest first, every change the code makes to the outside: file
  system writes, the listener, the browser, the requests sent, and each call of the
  interactive flow with its options.
\<close>

datatype effect =
    MkdirSync string
  | WriteFileSync string "StoredOAuthToken file_text"
  | UnlinkSync string
  | Listen nat
  | Close nat
  | OpenBrowser jsval "(string \<times> jsval) list"
  | Fetch request
  | Call_getToken OAuthGetTokenOptions

record world =
  tokenFiles :: "string \<Rightarrow> StoredOAuthToken file_state"
  credentialFiles :: "string \<Rightarrow> jsval file_state"
  directories :: "string \<Rightarrow> bool"
  clock :: int
  listeners :: "nat list"
  journal :: "effect list"

definition existsSync :: "(string \<Rightarrow> 'v file_state) \<Rightarrow> string \<Rightarrow> bool" where
  "existsSync files p = (files p \<noteq> Missing)"

definition readFileSync :: "(string \<Rightarrow> 'v file_state) \<Rightarrow> string \<Rightarrow> 'v file_text js_result" where
  "readFileSync files p =
     (case files p of Holds t \<Rightarrow> Returns t | Unreadable \<Rightarrow> Throws SystemError
      | Missing \<Rightarrow> Throws SystemError)"

section \<open>The token manager\<close>

definition hasStoredToken :: "OAuthTokenManager \<Rightarrow> world \<Rightarrow> bool" where
  "hasStoredToken mgr w = existsSync (tokenFiles w) (tokenPath mgr)"

definition getStoredToken :: "OAuthTokenManager \<Rightarrow> world \<Rightarrow> StoredOAuthToken option js_result" where
  "getStoredToken mgr w =
     (if \<not> hasStoredToken mgr w then Returns None
      else try_catch
        (case readFileSync (tokenFiles w) (tokenPath mgr) of
           Throws e \<Rightarrow> Throws e
         | Returns tokenContent \<Rightarrow>
             (case JSON_parse tokenContent of
                Throws e \<Rightarrow> Throws e
              | Returns token \<Rightarrow> Returns (Some token)))
        (\<lambda>error. Returns None))"

text \<open>\<open>now\<close> is the value \<^verbatim>\<open>Date.now()\<close> returns inside the call.\<close>

definition isTokenExpired :: "OAuthTokenManager \<Rightarrow> int \<Rightarrow> StoredOAuthToken \<Rightarrow> bool" where
  "isTokenExpired mgr now token =
     (if \<not> truthy_number (expires_at token) then True
      else if truthy_number (maxTokenLifetime mgr) \<and> truthy_number (created_at token) \<and>
              now \<ge> (the (created_at token) + the (maxTokenLifetime mgr)) - expirationBuffer mgr
      then True
      else now \<ge> the (expires_at token) - expirationBuffer mgr)"

definition saveToken :: "OAuthTokenManager \<Rightarrow> OAuthToken \<Rightarrow> world \<Rightarrow> world" where
  "saveToken mgr token w =
     (let now = clock w;
          expiresAt0 = now + expires_in token * 1000;
          expiresAt = (if truthy_number (maxTokenLifetime mgr)
                       then min expiresAt0 (now + the (maxTokenLifetime mgr))
                       else expiresAt0);
          storedToken = \<lparr>access_token = access_token token,
             refresh_token = refresh_token token, expires_in = expires_in token,
             token_type = token_type token, scope = scope token,
             expires_at = Some expiresAt, created_at = Some now\<rparr>;
          tokenDir = path_dirname (tokenPath mgr);
          w1 = (if \<not> directories w tokenDir
                then w\<lparr>directories := (directories w)(tokenDir := True),
                       journal := MkdirSync tokenDir # journal w\<rparr>
                else w)
      in w1\<lparr>tokenFiles := (tokenFiles w1)(tokenPath mgr := Holds (JSON_stringify storedToken)),
            journal := WriteFileSync (tokenPath mgr) (JSON_stringify storedToken) # journal w1\<rparr>)"

definition deleteStoredToken :: "OAuthTokenManager \<Rightarrow> world \<Rightarrow> world" where
  "deleteStoredToken mgr w =
     (if hasStoredToken mgr w
      then w\<lparr>tokenFiles := (tokenFiles w)(tokenPath mgr := Missing),
             journal := UnlinkSync (tokenPath mgr) # journal w\<rparr>
      else w)"

section \<open>The token endpoint\<close>

text \<open>
  A response of \<^verbatim>\<open>fetch\<close>: \<open>body_text\<close> is \<^verbatim>\<open>await response.text()\<close> and \<open>body_json\<close>
  is \<^verbatim>\<open>await response.json()\<close> at the declared type \<open>OAuthToken\<close> (\<open>None\<close> for the JSON
  text \<^verbatim>\<open>null\<close>, \<open>Throws\<close> for a body that is not JSON).
\<close>

record response =
  ok :: bool
  status :: nat
  body_text :: "string js_result"
  body_json :: "OAuthToken option js_result"

text \<open>
  What the request handler of the local listener sees: a request with the query of its
  URL (\<open>None\<close> when \<^verbatim>\<open>req.url\<close> is missing), or the \<^verbatim>\<open>abort\<close> event of the signal.
\<close>

datatype callback_event = Request "(string \<times> string) list option" | Abort

text \<open>
  Everything outside the program: the answer of the network to a request together with
  the milliseconds it takes, the working directory, the port of a redirect URI as
  \<^verbatim>\<open>new URL(redirectUri).port\<close> gives it (\<open>Throws\<close> for an invalid URL, \<open>None\<close> for no
  port), whether a port can be bound, and the events that reach the listener with their
  times in milliseconds after the wait began.
\<close>

record environment =
  fetch :: "request \<Rightarrow> response js_result \<times> int"
  cwd :: string
  URL_port :: "jsval \<Rightarrow> nat option js_result"
  port_free :: "nat \<Rightarrow> bool"
  incoming :: "(int \<times> callback_event) list"

definition js_bind :: "'a js_result \<Rightarrow> ('a \<Rightarrow> 'b js_result) \<Rightarrow> 'b js_result" where
  "js_bind r f = (case r of Throws e \<Rightarrow> Throws e | Returns v \<Rightarrow> f v)"

text \<open>The POST request of a refresh: the token URI and the form fields of the body.\<close>

definition refreshRequest :: "OAuthClient \<Rightarrow> string \<Rightarrow> request" where
  "refreshRequest client refreshToken' =
     (let refreshBody = [(''grant_type'', JStr ''refresh_token''),
                         (''refresh_token'', JStr refreshToken'),
                         (''client_id'', clientId client),
                         (''client_secret'', clientSecret client)]
      in \<lparr>url = tokenUri client, form = refreshBody\<rparr>)"

definition refreshToken ::
  "environment \<Rightarrow> OAuthClient \<Rightarrow> string \<Rightarrow> world \<Rightarrow> OAuthToken option js_result \<times> world" where
  "refreshToken env client refreshToken' w =
     (let req = refreshRequest client refreshToken';
          w1 = w\<lparr>clock := clock w + snd (fetch env req), journal := Fetch req # journal w\<rparr>
      in (try_catch
            (case fst (fetch env req) of
               Throws e \<Rightarrow> Throws e
             | Returns response \<Rightarrow>
                 if \<not> ok response
                 then (case body_text response of
                         Throws e \<Rightarrow> Throws e
                       | Returns errorText \<Rightarrow> Returns None)
                 else body_json response)
            (\<lambda>error. Returns None),
          w1))"

text \<open>
  The last step of \<open>getValidToken\<close>, reached when there is no stored token, when the
  stored token is expired without a refresh token, and when the refresh fails.
\<close>

definition authenticationNeeded ::
  "OAuthTokenManager \<Rightarrow> (world \<Rightarrow> OAuthToken option js_result \<times> world) option \<Rightarrow> world \<Rightarrow>
     StoredOAuthToken option js_result \<times> world" where
  "authenticationNeeded mgr onAuthenticationNeeded w =
     (case onAuthenticationNeeded of
        None \<Rightarrow> (Returns None, w)
      | Some callback \<Rightarrow>
          (case callback w of
             (Throws e, w1) \<Rightarrow> (Throws e, w1)
           | (Returns None, w1) \<Rightarrow> (Returns None, w1)
           | (Returns (Some newToken), w1) \<Rightarrow>
               (Returns (Some (widen newToken)), saveToken mgr newToken w1)))"

definition getValidToken ::
  "OAuthTokenManager \<Rightarrow> environment \<Rightarrow> OAuthClient \<Rightarrow>
     (world \<Rightarrow> OAuthToken option js_result \<times> world) option \<Rightarrow> world \<Rightarrow>
     StoredOAuthToken option js_result \<times> world" where
  "getValidToken mgr env client onAuthenticationNeeded w =
     (case getStoredToken mgr w of
        Throws e \<Rightarrow> (Throws e, w)
      | Returns None \<Rightarrow> authenticationNeeded mgr onAuthenticationNeeded w
      | Returns (Some existingToken) \<Rightarrow>
          if \<not> isTokenExpired mgr (clock w) existingToken
          then (Returns (Some existingToken), w)
          else if truthy_string (refresh_token existingToken)
          then (case refreshToken env client (the (refresh_token existingToken)) w of
                  (Throws e, w1) \<Rightarrow> (Throws e, w1)
                | (Returns None, w1) \<Rightarrow> authenticationNeeded mgr onAuthenticationNeeded w1
                | (Returns (Some refreshedToken), w1) \<Rightarrow>
                    (let refreshedToken' =
                       (if \<not> truthy_string (refresh_token refreshedToken) \<and>
                           truthy_string (refresh_token existingToken)
                        then refreshedToken\<lparr>refresh_token := refresh_token existingToken\<rparr>
                        else refreshedToken)
                     in (Returns (Some (widen refreshedToken')),
                         saveToken mgr refreshedToken' w1)))
          else authenticationNeeded mgr onAuthenticationNeeded w)"

section \<open>The interactive flow\<close>

text \<open>
  \<open>startLocalOAuthServer\<close>: the port is \<^verbatim>\<open>parseInt(urlParts.port) || 8080\<close>. The promise
  is rejected when the redirect URI is not a URL and when the port cannot be bound; then
  no listener exists. The server is identified by its port.
\<close>

definition startLocalOAuthServer ::
  "environment \<Rightarrow> jsval \<Rightarrow> world \<Rightarrow> nat js_result \<times> world" where
  "startLocalOAuthServer env redirectUri w =
     (case URL_port env redirectUri of
        Throws e \<Rightarrow> (Throws e, w)
      | Returns urlPort \<Rightarrow>
          (let port = (case urlPort of None \<Rightarrow> 8080 | Some n \<Rightarrow> if n = 0 then 8080 else n)
           in if port_free env port \<and> port \<notin> set (listeners w)
              then (Returns port,
                    w\<lparr>listeners := port # listeners w, journal := Listen port # journal w\<rparr>)
              else (Throws SystemError, w)))"

text \<open>\<^verbatim>\<open>Object.fromEntries(parsedUrl.searchParams.entries())\<close>: a later entry wins.\<close>

definition query_param :: "(string \<times> string) list \<Rightarrow> string \<Rightarrow> string option" where
  "query_param query k = map_of (rev query) k"

text \<open>
  \<open>waitForOAuthCallback\<close> resolves once, at the first of: the timer, after
  \<open>timeoutSeconds * 1000\<close> ms; the \<^verbatim>\<open>abort\<close> event, heard only when a signal was passed
  (the handler is added when the wait begins, and \<^verbatim>\<open>signal.aborted\<close> is never read); a
  request with a \<^verbatim>\<open>code\<close>; a request with an \<^verbatim>\<open>error\<close>. Other requests are ignored.
  The result is the code or \<^verbatim>\<open>null\<close>, and the milliseconds waited.
\<close>

fun waitForOAuthCallback ::
  "int \<Rightarrow> AbortSignal option \<Rightarrow> (int \<times> callback_event) list \<Rightarrow> string option \<times> int" where
  "waitForOAuthCallback timeoutSeconds signal [] = (None, timeoutSeconds * 1000)"
| "waitForOAuthCallback timeoutSeconds signal ((t, ev) # events) =
     (if t \<ge> timeoutSeconds * 1000 then (None, timeoutSeconds * 1000)
      else case ev of
        Abort \<Rightarrow>
          if signal \<noteq> None then (None, t)
          else waitForOAuthCallback timeoutSeconds signal events
      | Request None \<Rightarrow> waitForOAuthCallback timeoutSeconds signal events
      | Request (Some query) \<Rightarrow>
          if truthy_string (query_param query ''code'')
          then (query_param query ''code'', t)
          else if truthy_string (query_param query ''error'') then (None, t)
          else waitForOAuthCallback timeoutSeconds signal events)"

text \<open>\<^verbatim>\<open>options.timeoutSeconds || 300\<close>\<close>

definition timeoutSeconds_or_300 :: "OAuthGetTokenOptions \<Rightarrow> int" where
  "timeoutSeconds_or_300 options =
     (if truthy_number (flow_timeoutSeconds options) then the (flow_timeoutSeconds options)
      else 300)"

text \<open>
  The \<^verbatim>\<open>try\<close> block of \<open>getToken\<close>: its result, the server if one was started, and the
  world. \<open>openBrowser\<close> catches its own errors.
\<close>

definition authorize ::
  "environment \<Rightarrow> jsval \<Rightarrow> OAuthGetTokenOptions \<Rightarrow> jsval \<Rightarrow> world \<Rightarrow>
     string option js_result \<times> nat option \<times> world" where
  "authorize env credentials options redirectUri w =
     (case startLocalOAuthServer env redirectUri w of
        (Throws e, w1) \<Rightarrow> (Throws e, None, w1)
      | (Returns server, w1) \<Rightarrow>
          (case js_bind (js_get credentials ''client_id'') (\<lambda>client_id.
                js_bind (js_get credentials ''auth_uri'') (\<lambda>auth_uri.
                  Returns (auth_uri,
                    [(''client_id'', client_id), (''redirect_uri'', redirectUri),
                     (''scope'', JStr (flow_scope options)), (''response_type'', JStr ''code'')]
                    @ (if flow_includeOfflineAccess options = Some True
                       then [(''access_type'', JStr ''offline'')] else [])
                    @ (if truthy_string (flow_loginHint options)
                       then [(''login_hint'', JStr (the (flow_loginHint options)))] else [])
                    @ (case flow_prompt options of
                         None \<Rightarrow> []
                       | Some none \<Rightarrow> [(''prompt'', JStr ''none'')]
                       | Some consent \<Rightarrow> [(''prompt'', JStr ''consent'')]
                       | Some select_account \<Rightarrow> [(''prompt'', JStr ''select_account'')])))) of
             Throws e \<Rightarrow> (Throws e, Some server, w1)
           | Returns (auth_uri, authParams) \<Rightarrow>
               (let waited = waitForOAuthCallback (timeoutSeconds_or_300 options)
                      (flow_signal options) (incoming env)
                in (Returns (fst waited), Some server,
                    w1\<lparr>clock := clock w1 + snd waited,
                       journal := OpenBrowser auth_uri authParams # journal w1\<rparr>))))"

text \<open>The exchange of the authorization code for a token.\<close>

definition exchangeCode ::
  "environment \<Rightarrow> jsval \<Rightarrow> jsval \<Rightarrow> string \<Rightarrow> world \<Rightarrow> OAuthToken option js_result \<times> world" where
  "exchangeCode env credentials redirectUri authCode w =
     (case js_bind (js_get credentials ''client_id'') (\<lambda>client_id.
           js_bind (js_get credentials ''client_secret'') (\<lambda>client_secret.
             Returns [(''client_id'', client_id), (''client_secret'', client_secret),
                      (''code'', JStr authCode), (''grant_type'', JStr ''authorization_code''),
                      (''redirect_uri'', redirectUri)])) of
        Throws e \<Rightarrow> (Throws e, w)
      | Returns tokenBody \<Rightarrow>
          (case js_get credentials ''token_uri'' of
             Throws e \<Rightarrow> (Returns None, w)
           | Returns token_uri \<Rightarrow>
               (let req = \<lparr>url = token_uri, form = tokenBody\<rparr>;
                    w1 = w\<lparr>clock := clock w + snd (fetch env req),
                           journal := Fetch req # journal w\<rparr>
                in (try_catch
                      (case fst (fetch env req) of
                         Throws e \<Rightarrow> Throws e
                       | Returns response \<Rightarrow>
                           if \<not> ok response
                           then (case body_text response of
                                   Throws e \<Rightarrow> Throws e
                                 | Returns errorText \<Rightarrow> Throws (Error errorText))
                           else body_json response)
                      (\<lambda>error. Returns None),
                    w1))))"

text \<open>
  \<open>getToken\<close>, for an \<open>OAuthGetToken\<close> with the given credentials. The first element of
  \<^verbatim>\<open>redirect_uris\<close> is read before the \<^verbatim>\<open>try\<close>; the \<^verbatim>\<open>finally\<close> closes the server if it
  was started.
\<close>

definition getToken ::
  "environment \<Rightarrow> jsval \<Rightarrow> OAuthGetTokenOptions \<Rightarrow> world \<Rightarrow> OAuthToken option js_result \<times> world" where
  "getToken env credentials options w =
     (let w0 = w\<lparr>journal := Call_getToken options # journal w\<rparr>
      in case js_bind (js_get credentials ''redirect_uris'') js_index0 of
           Throws e \<Rightarrow> (Throws e, w0)
         | Returns redirectUri \<Rightarrow>
             (case authorize env credentials options redirectUri w0 of
                (attempt, server, w1) \<Rightarrow>
                  (let w2 = (case server of
                               None \<Rightarrow> w1
                             | Some port \<Rightarrow>
                                 w1\<lparr>listeners := remove1 port (listeners w1),
                                    journal := Close port # journal w1\<rparr>)
                   in case attempt of
                        Throws e \<Rightarrow> (Returns None, w2)
                      | Returns authCode \<Rightarrow>
                          if \<not> truthy_string authCode then (Returns None, w2)
                          else exchangeCode env credentials redirectUri (the authCode) w2)))"

section \<open>The orchestrator\<close>

record AuthenticateOptions =
  auth_scope :: string
  auth_tokenDirectory :: "string option"
  auth_tokenFileName :: "string option"
  auth_credentialsKey :: "string option"
  auth_timeoutSeconds :: "int option"
  auth_includeOfflineAccess :: "bool option"
  auth_maxTokenLifetimeHours :: "int option"
  auth_loginHint :: "string option"
  auth_prompt :: "prompt option"
  auth_signal :: "AbortSignal option"

text \<open>
  \<^verbatim>\<open>!c.client_id || !c.client_secret || !c.auth_uri || !c.token_uri\<close>, read from left to
  right: a TypeError when \<open>c\<close> is \<^verbatim>\<open>null\<close> or \<^verbatim>\<open>undefined\<close>.
\<close>

definition missingRequiredFields :: "jsval \<Rightarrow> bool js_result" where
  "missingRequiredFields c =
     js_bind (js_get c ''client_id'') (\<lambda>client_id.
       if \<not> truthy client_id then Returns True
       else js_bind (js_get c ''client_secret'') (\<lambda>client_secret.
         if \<not> truthy client_secret then Returns True
         else js_bind (js_get c ''auth_uri'') (\<lambda>auth_uri.
           if \<not> truthy auth_uri then Returns True
           else js_bind (js_get c ''token_uri'') (\<lambda>token_uri.
             Returns (\<not> truthy token_uri)))))"

definition loadCredentialsFromFile :: "world \<Rightarrow> string \<Rightarrow> string option \<Rightarrow> jsval option js_result" where
  "loadCredentialsFromFile w filePath credentialsKey =
     (if \<not> existsSync (credentialFiles w) filePath then Returns None
      else try_catch
        (js_bind (readFileSync (credentialFiles w) filePath) (\<lambda>credentialsContent.
           js_bind (JSON_parse credentialsContent) (\<lambda>credentialsJson.
             js_bind (if truthy_string credentialsKey
                      then js_get credentialsJson (the credentialsKey)
                      else Returns credentialsJson) (\<lambda>credentials.
               js_bind (missingRequiredFields credentials) (\<lambda>missing.
                 if missing
                 then Throws (Error ''Invalid credentials format - missing required fields'')
                 else Returns (Some credentials))))))
        (\<lambda>error. Returns None))"

text \<open>
  The first part of \<open>authenticateOAuth\<close>: the credentials chosen from a file path, a
  nested object or a flat object, and then validated. \<open>Returns None\<close> is \<^verbatim>\<open>return null\<close>.
\<close>

definition selectCredentials :: "world \<Rightarrow> jsval \<Rightarrow> string option \<Rightarrow> jsval option js_result" where
  "selectCredentials w credentialsPathOrData credentialsKey =
     (case credentialsPathOrData of
        JStr filePath \<Rightarrow> loadCredentialsFromFile w filePath credentialsKey
      | _ \<Rightarrow>
          js_bind (if truthy_string credentialsKey
                   then js_in (the credentialsKey) credentialsPathOrData
                   else Returns False) (\<lambda>hasKey.
            if hasKey
            then js_bind (js_get credentialsPathOrData (the credentialsKey)) (\<lambda>c. Returns (Some c))
            else js_bind (js_in ''installed'' credentialsPathOrData) (\<lambda>hasInstalled.
              if hasInstalled
              then js_bind (js_get credentialsPathOrData ''installed'') (\<lambda>c. Returns (Some c))
              else js_bind (js_in ''web'' credentialsPathOrData) (\<lambda>hasWeb.
                if hasWeb
                then js_bind (js_get credentialsPathOrData ''web'') (\<lambda>c. Returns (Some c))
                else Returns (Some credentialsPathOrData)))))"

definition loadCredentials :: "world \<Rightarrow> jsval \<Rightarrow> string option \<Rightarrow> jsval option js_result" where
  "loadCredentials w credentialsPathOrData credentialsKey =
     js_bind (selectCredentials w credentialsPathOrData credentialsKey) (\<lambda>selected.
       case selected of
         None \<Rightarrow> Returns None
       | Some credentials \<Rightarrow>
           js_bind (missingRequiredFields credentials) (\<lambda>missing.
             if missing then Returns None else Returns (Some credentials)))"

text \<open>
  The callback that \<open>authenticateOAuth\<close> hands to \<open>getValidToken\<close>. It first determines
  \<open>effectivePrompt\<close>, reading the store again when the caller gave no prompt and offline
  access is wanted.
\<close>

definition effectivePrompt ::
  "OAuthTokenManager \<Rightarrow> AuthenticateOptions \<Rightarrow> bool \<Rightarrow> world \<Rightarrow> prompt option js_result" where
  "effectivePrompt tokenManager options wantOfflineAccess w =
     (if auth_prompt options = None \<and> wantOfflineAccess
      then js_bind (getStoredToken tokenManager w) (\<lambda>storedToken.
             case storedToken of
               None \<Rightarrow> Returns (Some consent)
             | Some t \<Rightarrow>
                 if \<not> truthy_string (refresh_token t) then Returns (Some consent)
                 else Returns (auth_prompt options))
      else Returns (auth_prompt options))"

definition startAuthentication ::
  "environment \<Rightarrow> OAuthTokenManager \<Rightarrow> jsval \<Rightarrow> AuthenticateOptions \<Rightarrow> bool \<Rightarrow> world \<Rightarrow>
     OAuthToken option js_result \<times> world" where
  "startAuthentication env tokenManager credentials options wantOfflineAccess w =
     (case effectivePrompt tokenManager options wantOfflineAccess w of
        Throws e \<Rightarrow> (Throws e, w)
      | Returns prompt' \<Rightarrow>
          getToken env credentials
            \<lparr>flow_scope = auth_scope options,
             flow_timeoutSeconds =
               Some (if truthy_number (auth_timeoutSeconds options)
                     then the (auth_timeoutSeconds options) else 300),
             flow_includeOfflineAccess = Some wantOfflineAccess,
             flow_loginHint = auth_loginHint options,
             flow_prompt = prompt',
             flow_signal = auth_signal options\<rparr> w)"

text \<open>The options \<open>authenticateOAuth\<close> constructs its token manager with.\<close>

definition tokenManagerOptions :: "environment \<Rightarrow> AuthenticateOptions \<Rightarrow> TokenManagerOptions" where
  "tokenManagerOptions env options =
     \<lparr>tokenFileName =
        Some (if truthy_string (auth_tokenFileName options)
              then the (auth_tokenFileName options) else ''oauth-token.json''),
      tokenDirectory =
        Some (if truthy_string (auth_tokenDirectory options)
              then the (auth_tokenDirectory options) else cwd env),
      expirationBufferMinutes = None,
      maxTokenLifetimeHours = auth_maxTokenLifetimeHours options\<rparr>"

text \<open>
  \<open>authenticateOAuth\<close>. Its console output is not modelled, nor is the read of the stored
  token that only decides a log line (\<open>needsRefreshToken\<close>).
\<close>

definition authenticateOAuth ::
  "environment \<Rightarrow> jsval \<Rightarrow> AuthenticateOptions \<Rightarrow> world \<Rightarrow>
     StoredOAuthToken option js_result \<times> world" where
  "authenticateOAuth env credentialsPathOrData options w =
     (case loadCredentials w credentialsPathOrData (auth_credentialsKey options) of
        Throws e \<Rightarrow> (Throws e, w)
      | Returns None \<Rightarrow> (Returns None, w)
      | Returns (Some credentials) \<Rightarrow>
          (case new_OAuthTokenManager (tokenManagerOptions env options) of
             Throws e \<Rightarrow> (Throws e, w)
           | Returns tokenManager \<Rightarrow>
               (case js_bind (js_get credentials ''client_id'') (\<lambda>client_id.
                     js_bind (js_get credentials ''client_secret'') (\<lambda>client_secret.
                       js_bind (js_get credentials ''token_uri'') (\<lambda>token_uri.
                         Returns \<lparr>clientId = client_id, clientSecret = client_secret,
                                  tokenUri = token_uri\<rparr>))) of
                  Throws e \<Rightarrow> (Throws e, w)
                | Returns oauthClient \<Rightarrow>
                    (let wantOfflineAccess = (auth_includeOfflineAccess options \<noteq> Some False)
                     in getValidToken tokenManager env oauthClient
                          (Some (startAuthentication env tokenManager credentials options
                                   wantOfflineAccess)) w))))"

text \<open>The options of the calls of \<open>getToken\<close> in a journal, newest first.\<close>

fun flow_calls :: "effect list \<Rightarrow> OAuthGetTokenOptions list" where
  "flow_calls [] = []"
| "flow_calls (Call_getToken options # es) = options # flow_calls es"
| "flow_calls (e # es) = flow_calls es"

section \<open>Concrete inputs\<close>

definition fresh_token :: "int \<Rightarrow> OAuthToken" where
  "fresh_token seconds = \<lparr>access_token = ''A'', refresh_token = None, expires_in = seconds,
     token_type = ''Bearer'', scope = None\<rparr>"

definition stored_token :: "string \<Rightarrow> string option \<Rightarrow> int \<Rightarrow> int \<Rightarrow> StoredOAuthToken" where
  "stored_token access refresh created expires = \<lparr>access_token = access,
     refresh_token = refresh, expires_in = 3600, token_type = ''Bearer'', scope = None,
     expires_at = Some expires, created_at = Some created\<rparr>"

definition options_in :: "int option \<Rightarrow> int option \<Rightarrow> TokenManagerOptions" where
  "options_in bufferMinutes lifetimeHours = \<lparr>tokenFileName = None, tokenDirectory = Some ''tokens'',
     expirationBufferMinutes = bufferMinutes, maxTokenLifetimeHours = lifetimeHours\<rparr>"

definition manager_in :: "int \<Rightarrow> int option \<Rightarrow> OAuthTokenManager" where
  "manager_in buffer lifetime = \<lparr>tokenPath = ''tokens/token.json'', expirationBuffer = buffer,
     maxTokenLifetime = lifetime\<rparr>"

definition world_at :: "int \<Rightarrow> StoredOAuthToken file_state \<Rightarrow> world" where
  "world_at now file = \<lparr>tokenFiles = (\<lambda>p. Missing)(''tokens/token.json'' := file),
     credentialFiles = (\<lambda>p. Missing), directories = (\<lambda>p. False)(''tokens'' := True),
     clock = now, listeners = [], journal = []\<rparr>"

definition world_with_credentials :: "jsval file_state \<Rightarrow> world" where
  "world_with_credentials file = \<lparr>tokenFiles = (\<lambda>p. Missing),
     credentialFiles = (\<lambda>p. Missing)(''credentials.json'' := file),
     directories = (\<lambda>p. False)(''tokens'' := True),
     clock = 0, listeners = [], journal = []\<rparr>"

definition reply_ok :: "OAuthToken \<Rightarrow> response js_result" where
  "reply_ok t = Returns \<lparr>ok = True, status = 200, body_text = Returns [],
     body_json = Returns (Some t)\<rparr>"

definition reply_status :: "nat \<Rightarrow> response js_result" where
  "reply_status n = Returns \<lparr>ok = False, status = n, body_text = Returns ''invalid_grant'',
     body_json = Throws SyntaxError\<rparr>"

definition env_of :: "response js_result \<Rightarrow> (int \<times> callback_event) list \<Rightarrow> environment" where
  "env_of reply events = \<lparr>fetch = (\<lambda>req. (reply, 250)), cwd = ''/home/user'',
     URL_port = (\<lambda>u. Returns (Some 3000)), port_free = (\<lambda>p. True), incoming = events\<rparr>"

definition goodCredentials :: jsval where
  "goodCredentials = JObj [(''client_id'', JStr ''id''), (''client_secret'', JStr ''secret''),
     (''auth_uri'', JStr ''https://provider/auth''), (''token_uri'', JStr ''https://provider/token''),
     (''redirect_uris'', JArr [JStr ''http://localhost:3000''])]"

definition client0 :: OAuthClient where
  "client0 = \<lparr>clientId = JStr ''id'', clientSecret = JStr ''secret'',
     tokenUri = JStr ''https://provider/token''\<rparr>"

definition authOptions :: "prompt option \<Rightarrow> AuthenticateOptions" where
  "authOptions p = \<lparr>auth_scope = ''contacts'', auth_tokenDirectory = Some ''tokens'',
     auth_tokenFileName = Some ''token.json'', auth_credentialsKey = None,
     auth_timeoutSeconds = None, auth_includeOfflineAccess = None,
     auth_maxTokenLifetimeHours = None, auth_loginHint = None, auth_prompt = p,
     auth_signal = None\<rparr>"

definition flowOptions :: "int option \<Rightarrow> AbortSignal option \<Rightarrow> OAuthGetTokenOptions" where
  "flowOptions seconds s = \<lparr>flow_scope = ''contacts'', flow_timeoutSeconds = seconds,
     flow_includeOfflineAccess = Some True, flow_loginHint = None, flow_prompt = Some consent,
     flow_signal = s\<rparr>"

definition code_request :: "int \<Rightarrow> (int \<times> callback_event) list" where
  "code_request t = [(t, Request (Some [(''code'', ''abc'')]))]"

section \<open>Inherited properties\<close>

text \<open>None of the keys the code reads by name is inherited.\<close>

lemma is_inherited_code_keys:
  "\<not> is_inherited ''installed''" "\<not> is_inherited ''web''"
  "\<not> is_inherited ''client_id''" "\<not> is_inherited ''client_secret''"
  "\<not> is_inherited ''auth_uri''" "\<not> is_inherited ''token_uri''"
  "\<not> is_inherited ''redirect_uris''"
  by (simp_all add: is_inherited_def Object_prototype_methods_def)

lemma js_inherited_code_keys:
  "js_inherited ''installed'' = JUndefined" "js_inherited ''web'' = JUndefined"
  "js_inherited ''client_id'' = JUndefined" "js_inherited ''client_secret'' = JUndefined"
  "js_inherited ''auth_uri'' = JUndefined" "js_inherited ''token_uri'' = JUndefined"
  "js_inherited ''redirect_uris'' = JUndefined"
  by (simp_all add: js_inherited_def Object_prototype_methods_def)

lemma inherited_toString:
  "is_inherited ''toString''" "js_inherited ''toString'' = JFunction"
  by (simp_all add: is_inherited_def js_inherited_def Object_prototype_methods_def)

section \<open>The constructor and the expiry test\<close>

lemma new_OAuthTokenManager_fields:
  assumes "new_OAuthTokenManager options = Returns mgr"
  shows "expirationBuffer mgr =
           (case expirationBufferMinutes options of
              None \<Rightarrow> 5 | Some b \<Rightarrow> if b = 0 then 5 else b) * 60000"
    and "maxTokenLifetime mgr =
           (case maxTokenLifetimeHours options of
              None \<Rightarrow> None | Some H \<Rightarrow> if H = 0 then None else Some (H * 3600000))"
  using assms
  by (auto simp: new_OAuthTokenManager_def Let_def truthy_number_def
      split: if_splits option.splits)

lemma new_options_in:
  "new_OAuthTokenManager (options_in b l) =
     Returns (manager_in ((case b of None \<Rightarrow> 5 | Some m \<Rightarrow> if m = 0 then 5 else m) * 60000)
        (case l of None \<Rightarrow> None | Some H \<Rightarrow> if H = 0 then None else Some (H * 3600000)))"
  by (auto simp: new_OAuthTokenManager_def options_in_def manager_in_def Let_def
      truthy_number_def truthy_string_def path_join_def split: option.splits)

text \<open>
  C10. A manager constructed with \<open>expirationBufferMinutes\<close> explicitly 0 has an expiration
  buffer of 5 minutes, 300000 ms: the 0 is falsy and the default replaces it. So
  \<open>isTokenExpired\<close> holds for every token as soon as \<open>now \<ge> expires_at - 300000\<close>.
\<close>

theorem zero_buffer_is_five_minutes:
  assumes "truthy_string (tokenDirectory options)"
    and "expirationBufferMinutes options = Some 0"
  shows "\<exists>mgr. new_OAuthTokenManager options = Returns mgr \<and> expirationBuffer mgr = 300000 \<and>
           (\<forall>now token e. expires_at token = Some e \<and> now \<ge> e - 300000 \<longrightarrow>
              isTokenExpired mgr now token)"
  using assms
  by (auto simp: new_OAuthTokenManager_def Let_def truthy_number_def isTokenExpired_def)

theorem zero_buffer_is_five_minutes_witness:
  "truthy_string (tokenDirectory (options_in (Some 0) None)) \<and>
   expirationBufferMinutes (options_in (Some 0) None) = Some 0 \<and>
   new_OAuthTokenManager (options_in (Some 0) None) = Returns (manager_in 300000 None) \<and>
   isTokenExpired (manager_in 300000 None) 700000 (stored_token ''A'' None 0 1000000)"
proof -
  have h1: "truthy_string (tokenDirectory (options_in (Some 0) None))"
    by (simp add: options_in_def truthy_string_def)
  have h2: "expirationBufferMinutes (options_in (Some 0) None) = Some 0"
    by (simp add: options_in_def)
  from zero_buffer_is_five_minutes [OF h1 h2] obtain mgr where
    m: "new_OAuthTokenManager (options_in (Some 0) None) = Returns mgr"
    and e: "\<forall>now token e. expires_at token = Some e \<and> now \<ge> e - 300000 \<longrightarrow>
              isTokenExpired mgr now token"
    by blast
  have c: "new_OAuthTokenManager (options_in (Some 0) None) = Returns (manager_in 300000 None)"
    by (simp add: new_options_in)
  with m have "mgr = manager_in 300000 None" by simp
  moreover have "expires_at (stored_token ''A'' None 0 1000000) = Some 1000000 \<and>
      (700000::int) \<ge> 1000000 - 300000"
    by (simp add: stored_token_def)
  ultimately have "isTokenExpired (manager_in 300000 None) 700000 (stored_token ''A'' None 0 1000000)"
    using e by blast
  with h1 h2 c show ?thesis by simp
qed

text \<open>
  C2, as stated, fails where a value is present but 0. With a maximum lifetime of one hour
  and a five minute buffer, a token whose \<open>created_at\<close> is 0 and whose \<open>expires_at\<close> lies far
  ahead is past \<open>created_at + maxTokenLifetime - buffer\<close> at \<open>now = 4000000\<close>, and
  \<open>isTokenExpired\<close> is false: the test \<^verbatim>\<open>this.maxTokenLifetime && token.created_at\<close> takes
  the 0 for absent.
\<close>

theorem isTokenExpired_ignores_zero_created_at:
  "new_OAuthTokenManager (options_in None (Some 1)) = Returns (manager_in 300000 (Some 3600000)) \<and>
   expires_at (stored_token ''A'' None 0 10000000) = Some 10000000 \<and>
   created_at (stored_token ''A'' None 0 10000000) = Some 0 \<and>
   (4000000::int) \<ge> 0 + 3600000 - 300000 \<and>
   \<not> isTokenExpired (manager_in 300000 (Some 3600000)) 4000000 (stored_token ''A'' None 0 10000000)"
proof -
  have "new_OAuthTokenManager (options_in None (Some 1)) =
      Returns (manager_in 300000 (Some 3600000))"
    by (simp add: new_options_in)
  moreover have
    "\<not> isTokenExpired (manager_in 300000 (Some 3600000)) 4000000 (stored_token ''A'' None 0 10000000)"
    by (simp add: isTokenExpired_def manager_in_def stored_token_def truthy_number_def)
  ultimately show ?thesis by (simp add: stored_token_def)
qed

text \<open>
  C2, amended: \<open>isTokenExpired\<close> is true when \<open>expires_at\<close> is unset or 0. Otherwise it is
  true exactly when \<open>now \<ge> expires_at - buffer\<close>, or when \<open>maxTokenLifetimeHours\<close> is set and
  not 0, \<open>created_at\<close> is set and not 0, and
  \<open>now \<ge> created_at + maxTokenLifetimeHours * 3600000 - buffer\<close>. In particular, without
  such a policy and with \<open>expires_at\<close> not 0 it is false whenever
  \<open>now < expires_at - buffer\<close>.
\<close>

theorem isTokenExpired_exactly:
  assumes "new_OAuthTokenManager options = Returns mgr"
  shows "isTokenExpired mgr now token =
     (case expires_at token of
        None \<Rightarrow> True
      | Some e \<Rightarrow> e = 0 \<or> now \<ge> e - expirationBuffer mgr \<or>
          (\<exists>H c. maxTokenLifetimeHours options = Some H \<and> H \<noteq> 0 \<and>
                 created_at token = Some c \<and> c \<noteq> 0 \<and>
                 now \<ge> c + H * 3600000 - expirationBuffer mgr))"
  using new_OAuthTokenManager_fields(2) [OF assms]
  by (auto simp: isTokenExpired_def truthy_number_def split: option.splits if_splits)

theorem isTokenExpired_exactly_witness:
  "new_OAuthTokenManager (options_in None (Some 1)) = Returns (manager_in 300000 (Some 3600000)) \<and>
   isTokenExpired (manager_in 300000 (Some 3600000)) 4000000 (stored_token ''A'' None 1000 10000000) \<and>
   \<not> isTokenExpired (manager_in 300000 (Some 3600000)) 3000000 (stored_token ''A'' None 1000 10000000)"
proof -
  have h: "new_OAuthTokenManager (options_in None (Some 1)) =
      Returns (manager_in 300000 (Some 3600000))"
    by (simp add: new_options_in)
  have "isTokenExpired (manager_in 300000 (Some 3600000)) 4000000 (stored_token ''A'' None 1000 10000000)"
    unfolding isTokenExpired_exactly [OF h]
    by (simp add: stored_token_def manager_in_def options_in_def)
  moreover have
    "\<not> isTokenExpired (manager_in 300000 (Some 3600000)) 3000000 (stored_token ''A'' None 1000 10000000)"
    unfolding isTokenExpired_exactly [OF h]
    by (simp add: stored_token_def manager_in_def options_in_def)
  ultimately show ?thesis using h by simp
qed

section \<open>Saving\<close>

text \<open>
  C1, as stated, fails for \<open>maxTokenLifetimeHours = 0\<close>: the constructor takes the 0 for
  unset, so a token of 3600 seconds saved at time 5000 gets \<open>expires_at = 3605000\<close>, not
  \<open>5000 + min (3600 * 1000) (0 * 3600 * 1000) = 5000\<close>.
\<close>

theorem saveToken_ignores_zero_lifetime:
  "maxTokenLifetimeHours (options_in None (Some 0)) = Some 0 \<and>
   new_OAuthTokenManager (options_in None (Some 0)) = Returns (manager_in 300000 None) \<and>
   tokenFiles (saveToken (manager_in 300000 None) (fresh_token 3600) (world_at 5000 Missing))
       ''tokens/token.json'' = Holds (JSON_of (stored_token ''A'' None 5000 3605000)) \<and>
   (3605000::int) \<noteq> 5000 + min (3600 * 1000) (0 * 3600 * 1000)"
proof -
  have "maxTokenLifetimeHours (options_in None (Some 0)) = Some 0"
    by (simp add: options_in_def)
  moreover have "new_OAuthTokenManager (options_in None (Some 0)) = Returns (manager_in 300000 None)"
    by (simp add: new_options_in)
  moreover have
    "tokenFiles (saveToken (manager_in 300000 None) (fresh_token 3600) (world_at 5000 Missing))
       ''tokens/token.json'' = Holds (JSON_of (stored_token ''A'' None 5000 3605000))"
    by (simp add: saveToken_def manager_in_def fresh_token_def world_at_def
      stored_token_def Let_def truthy_number_def JSON_stringify_def)
  ultimately show ?thesis by simp
qed

text \<open>
  C1, amended: \<open>saveToken\<close> replaces the content of the token file by the record that has
  the fields of the token, \<open>created_at\<close> the time of the save, and \<open>expires_at\<close> equal to
  \<open>created_at + min (expires_in * 1000) (maxTokenLifetimeHours * 3600 * 1000)\<close> when
  \<open>maxTokenLifetimeHours\<close> is set and not 0, and to \<open>created_at + expires_in * 1000\<close> when it
  is unset or 0. Whatever the file held before is gone, and no other token file changes.
\<close>

theorem saveToken_stores:
  assumes "new_OAuthTokenManager options = Returns mgr"
  shows "tokenFiles (saveToken mgr token w) (tokenPath mgr) =
     Holds (JSON_of \<lparr>access_token = access_token token, refresh_token = refresh_token token,
        expires_in = expires_in token, token_type = token_type token, scope = scope token,
        expires_at = Some (clock w +
          (case maxTokenLifetimeHours options of
             None \<Rightarrow> expires_in token * 1000
           | Some H \<Rightarrow> if H = 0 then expires_in token * 1000
                      else min (expires_in token * 1000) (H * 3600 * 1000))),
        created_at = Some (clock w)\<rparr>) \<and>
     (\<forall>p. p \<noteq> tokenPath mgr \<longrightarrow> tokenFiles (saveToken mgr token w) p = tokenFiles w p)"
  using new_OAuthTokenManager_fields(2) [OF assms]
  by (auto simp: saveToken_def Let_def truthy_number_def JSON_stringify_def split: option.splits)

theorem saveToken_stores_witness:
  "new_OAuthTokenManager (options_in None (Some 1)) = Returns (manager_in 300000 (Some 3600000)) \<and>
   tokenFiles (saveToken (manager_in 300000 (Some 3600000)) (fresh_token 7200)
       (world_at 5000 (Holds Malformed))) ''tokens/token.json'' =
     Holds (JSON_of \<lparr>access_token = ''A'', refresh_token = None, expires_in = 7200,
        token_type = ''Bearer'', scope = None, expires_at = Some 3605000,
        created_at = Some 5000\<rparr>)"
proof -
  have h: "new_OAuthTokenManager (options_in None (Some 1)) =
      Returns (manager_in 300000 (Some 3600000))"
    by (simp add: new_options_in)
  from saveToken_stores [OF h, of "fresh_token 7200" "world_at 5000 (Holds Malformed)"]
  have "tokenFiles (saveToken (manager_in 300000 (Some 3600000)) (fresh_token 7200)
       (world_at 5000 (Holds Malformed))) ''tokens/token.json'' =
     Holds (JSON_of \<lparr>access_token = ''A'', refresh_token = None, expires_in = 7200,
        token_type = ''Bearer'', scope = None, expires_at = Some 3605000,
        created_at = Some 5000\<rparr>)"
    by (simp add: manager_in_def fresh_token_def world_at_def options_in_def)
  with h show ?thesis by simp
qed

section \<open>Reading the store\<close>

text \<open>
  C9. \<open>getStoredToken\<close> never throws, and it returns \<^verbatim>\<open>null\<close> when the file is missing,
  cannot be read, or holds text that is not JSON.
\<close>

theorem getStoredToken_degrades_to_absent:
  "(\<exists>r. getStoredToken mgr w = Returns r) \<and>
   (tokenFiles w (tokenPath mgr) = Missing \<or> tokenFiles w (tokenPath mgr) = Unreadable \<or>
    tokenFiles w (tokenPath mgr) = Holds Malformed \<longrightarrow> getStoredToken mgr w = Returns None)"
  by (auto simp: getStoredToken_def hasStoredToken_def existsSync_def readFileSync_def
       JSON_parse_def try_catch_def split: file_state.splits file_text.splits)

theorem getStoredToken_degrades_to_absent_witness:
  "tokenFiles (world_at 0 (Holds Malformed)) (tokenPath (manager_in 300000 None)) = Holds Malformed \<and>
   getStoredToken (manager_in 300000 None) (world_at 0 (Holds Malformed)) = Returns None"
proof -
  have h: "tokenFiles (world_at 0 (Holds Malformed)) (tokenPath (manager_in 300000 None)) = Holds Malformed"
    by (simp add: world_at_def manager_in_def)
  with getStoredToken_degrades_to_absent
    [of "manager_in 300000 None" "world_at 0 (Holds Malformed)"]
  show ?thesis by blast
qed

section \<open>The decision procedure\<close>

lemma getStoredToken_Returns: "\<exists>r. getStoredToken mgr w = Returns r"
  by (auto simp: getStoredToken_def try_catch_def split: js_result.splits)

lemma getStoredToken_Holds:
  "tokenFiles w (tokenPath mgr) = Holds (JSON_of token) \<Longrightarrow>
   getStoredToken mgr w = Returns (Some token)"
  by (simp add: getStoredToken_def hasStoredToken_def existsSync_def readFileSync_def
      JSON_parse_def try_catch_def)

lemma getStoredToken_tokenFiles:
  "tokenFiles w1 = tokenFiles w \<Longrightarrow> getStoredToken mgr w1 = getStoredToken mgr w"
  by (simp add: getStoredToken_def hasStoredToken_def)

lemma refreshToken_world:
  "snd (refreshToken env client r w) =
     w\<lparr>clock := clock w + snd (fetch env (refreshRequest client r)),
       journal := Fetch (refreshRequest client r) # journal w\<rparr>"
  by (simp add: refreshToken_def Let_def)

lemma refreshToken_fails:
  assumes "(\<exists>e. fst (fetch env (refreshRequest client r)) = Throws e) \<or>
           (\<exists>resp. fst (fetch env (refreshRequest client r)) = Returns resp \<and> \<not> ok resp)"
  shows "fst (refreshToken env client r w) = Returns None"
  using assms
  by (auto simp: refreshToken_def Let_def try_catch_def split: js_result.splits)

lemma refreshToken_succeeds:
  assumes "fst (fetch env (refreshRequest client r)) = Returns resp" and "ok resp"
    and "body_json resp = Returns fresh"
  shows "fst (refreshToken env client r w) = Returns fresh"
  using assms
  by (auto simp: refreshToken_def Let_def try_catch_def split: js_result.splits)

lemma world_at_file:
  "tokenFiles (world_at now file) (tokenPath (manager_in b l)) = file"
  by (simp add: world_at_def manager_in_def)

text \<open>
  C4. When the file holds a token that is not expired, \<open>getValidToken\<close> returns exactly
  that record and leaves the world as it was: no file is written or deleted, and the
  journal gets no entry.
\<close>

theorem getValidToken_valid_is_noop:
  assumes "tokenFiles w (tokenPath mgr) = Holds (JSON_of token)"
    and "\<not> isTokenExpired mgr (clock w) token"
  shows "getValidToken mgr env client onAuthenticationNeeded w = (Returns (Some token), w)"
  using assms by (simp add: getValidToken_def getStoredToken_Holds)

theorem getValidToken_valid_is_noop_witness:
  "tokenFiles (world_at 500000 (Holds (JSON_of (stored_token ''B'' None 1000 1000000))))
     (tokenPath (manager_in 300000 None)) = Holds (JSON_of (stored_token ''B'' None 1000 1000000)) \<and>
   \<not> isTokenExpired (manager_in 300000 None) 500000 (stored_token ''B'' None 1000 1000000) \<and>
   getValidToken (manager_in 300000 None) (env_of (reply_status 400) []) client0 None
     (world_at 500000 (Holds (JSON_of (stored_token ''B'' None 1000 1000000)))) =
     (Returns (Some (stored_token ''B'' None 1000 1000000)),
      world_at 500000 (Holds (JSON_of (stored_token ''B'' None 1000 1000000))))"
proof -
  let ?w = "world_at 500000 (Holds (JSON_of (stored_token ''B'' None 1000 1000000)))"
  have h1: "tokenFiles ?w (tokenPath (manager_in 300000 None)) =
      Holds (JSON_of (stored_token ''B'' None 1000 1000000))"
    by (rule world_at_file)
  have h2: "\<not> isTokenExpired (manager_in 300000 None) 500000 (stored_token ''B'' None 1000 1000000)"
    by (simp add: isTokenExpired_def manager_in_def stored_token_def truthy_number_def)
  have "clock ?w = 500000" by (simp add: world_at_def)
  with h2 have h2': "\<not> isTokenExpired (manager_in 300000 None) (clock ?w)
      (stored_token ''B'' None 1000 1000000)"
    by simp
  from getValidToken_valid_is_noop [OF h1 h2'] h1 h2 show ?thesis by simp
qed

text \<open>
  C3. The stored token is expired and has a refresh token \<open>r\<close>; the refresh request is
  answered with a success status and a token without a refresh token (unset or empty).
  Then \<open>getValidToken\<close> returns the new token with \<open>refresh_token = r\<close>, and the token
  file holds the new token with \<open>refresh_token = r\<close>.
\<close>

theorem getValidToken_carries_refresh_token:
  assumes "tokenFiles w (tokenPath mgr) = Holds (JSON_of existing)"
    and "isTokenExpired mgr (clock w) existing"
    and "refresh_token existing = Some r" and "r \<noteq> []"
    and "fst (fetch env (refreshRequest client r)) = Returns resp" and "ok resp"
    and "body_json resp = Returns (Some fresh)"
    and "\<not> truthy_string (refresh_token fresh)"
  shows "\<exists>w' stored. getValidToken mgr env client onAuthenticationNeeded w =
            (Returns (Some (widen (fresh\<lparr>refresh_token := Some r\<rparr>))), w') \<and>
          tokenFiles w' (tokenPath mgr) = Holds (JSON_of stored) \<and>
          refresh_token stored = Some r \<and> access_token stored = access_token fresh"
proof -
  have "fst (refreshToken env client r w) = Returns (Some fresh)"
    using assms(5-7) by (rule refreshToken_succeeds)
  then obtain w1 where "refreshToken env client r w = (Returns (Some fresh), w1)"
    by (cases "refreshToken env client r w") auto
  with assms(1-4,8) show ?thesis
    by (simp add: getValidToken_def getStoredToken_Holds truthy_string_def saveToken_def Let_def
        JSON_stringify_def)
qed

theorem getValidToken_carries_refresh_token_witness:
  "tokenFiles (world_at 2000000 (Holds (JSON_of (stored_token ''B'' (Some ''R'') 1000 1000000))))
     (tokenPath (manager_in 300000 None)) =
     Holds (JSON_of (stored_token ''B'' (Some ''R'') 1000 1000000)) \<and>
   isTokenExpired (manager_in 300000 None) 2000000 (stored_token ''B'' (Some ''R'') 1000 1000000) \<and>
   refresh_token (stored_token ''B'' (Some ''R'') 1000 1000000) = Some ''R'' \<and>
   fst (fetch (env_of (reply_ok (fresh_token 3600)) []) (refreshRequest client0 ''R'')) =
     reply_ok (fresh_token 3600) \<and>
   refresh_token (fresh_token 3600) = None \<and>
   (\<exists>w' stored.
      getValidToken (manager_in 300000 None) (env_of (reply_ok (fresh_token 3600)) []) client0 None
        (world_at 2000000 (Holds (JSON_of (stored_token ''B'' (Some ''R'') 1000 1000000)))) =
        (Returns (Some (widen ((fresh_token 3600)\<lparr>refresh_token := Some ''R''\<rparr>))), w') \<and>
      tokenFiles w' ''tokens/token.json'' = Holds (JSON_of stored) \<and>
      refresh_token stored = Some ''R'' \<and> access_token stored = ''A'')"
proof -
  let ?old = "stored_token ''B'' (Some ''R'') 1000 1000000"
  let ?w = "world_at 2000000 (Holds (JSON_of ?old))"
  let ?env = "env_of (reply_ok (fresh_token 3600)) []"
  let ?resp = "\<lparr>ok = True, status = 200, body_text = Returns [],
     body_json = Returns (Some (fresh_token 3600))\<rparr>"
  have h1: "tokenFiles ?w (tokenPath (manager_in 300000 None)) = Holds (JSON_of ?old)"
    by (rule world_at_file)
  have e: "isTokenExpired (manager_in 300000 None) 2000000 ?old"
    by (simp add: isTokenExpired_def manager_in_def stored_token_def truthy_number_def)
  have "clock ?w = 2000000" by (simp add: world_at_def)
  with e have h2: "isTokenExpired (manager_in 300000 None) (clock ?w) ?old" by simp
  have h3: "refresh_token ?old = Some ''R''" by (simp add: stored_token_def)
  have h4: "''R'' \<noteq> []" by simp
  have f: "fst (fetch ?env (refreshRequest client0 ''R'')) = reply_ok (fresh_token 3600)"
    by (simp add: env_of_def)
  then have h5: "fst (fetch ?env (refreshRequest client0 ''R'')) = Returns ?resp"
    by (simp add: reply_ok_def)
  have h6: "ok ?resp" by simp
  have h7: "body_json ?resp = Returns (Some (fresh_token 3600))" by simp
  have n: "refresh_token (fresh_token 3600) = None" by (simp add: fresh_token_def)
  then have h8: "\<not> truthy_string (refresh_token (fresh_token 3600))"
    by (simp add: truthy_string_def)
  from getValidToken_carries_refresh_token [OF h1 h2 h3 h4 h5 h6 h7 h8, of None]
  have "\<exists>w' stored.
      getValidToken (manager_in 300000 None) ?env client0 None ?w =
        (Returns (Some (widen ((fresh_token 3600)\<lparr>refresh_token := Some ''R''\<rparr>))), w') \<and>
      tokenFiles w' ''tokens/token.json'' = Holds (JSON_of stored) \<and>
      refresh_token stored = Some ''R'' \<and> access_token stored = ''A''"
    by (simp add: manager_in_def fresh_token_def)
  with h1 e h3 f n show ?thesis by simp
qed

text \<open>
  C5. The stored token is expired; if it has a refresh token, the refresh request fails
  in transport or is answered with a status that is not a success; no callback is given.
  Then \<open>getValidToken\<close> returns \<^verbatim>\<open>null\<close>, it does not throw, and no token file changes.
\<close>

theorem getValidToken_absent_when_refresh_fails:
  assumes "tokenFiles w (tokenPath mgr) = Holds (JSON_of existing)"
    and "isTokenExpired mgr (clock w) existing"
    and "\<forall>r. refresh_token existing = Some r \<longrightarrow>
           (\<exists>e. fst (fetch env (refreshRequest client r)) = Throws e) \<or>
           (\<exists>resp. fst (fetch env (refreshRequest client r)) = Returns resp \<and> \<not> ok resp)"
  shows "fst (getValidToken mgr env client None w) = Returns None \<and>
         tokenFiles (snd (getValidToken mgr env client None w)) = tokenFiles w"
proof (cases "truthy_string (refresh_token existing)")
  case False
  with assms(1,2) show ?thesis
    by (simp add: getValidToken_def getStoredToken_Holds authenticationNeeded_def)
next
  case True
  then obtain r where r: "refresh_token existing = Some r"
    by (auto simp: truthy_string_def split: option.splits)
  with assms(3) have "fst (refreshToken env client r w) = Returns None"
    using refreshToken_fails by blast
  then have "refreshToken env client r w = (Returns None, snd (refreshToken env client r w))"
    by (metis prod.collapse)
  with assms(1,2) True r show ?thesis
    by (simp add: getValidToken_def getStoredToken_Holds authenticationNeeded_def refreshToken_world)
qed

theorem getValidToken_absent_when_refresh_fails_witness:
  "tokenFiles (world_at 2000000 (Holds (JSON_of (stored_token ''B'' (Some ''R'') 1000 1000000))))
     (tokenPath (manager_in 300000 None)) =
     Holds (JSON_of (stored_token ''B'' (Some ''R'') 1000 1000000)) \<and>
   isTokenExpired (manager_in 300000 None) 2000000 (stored_token ''B'' (Some ''R'') 1000 1000000) \<and>
   refresh_token (stored_token ''B'' (Some ''R'') 1000 1000000) = Some ''R'' \<and>
   fst (fetch (env_of (reply_status 400) []) (refreshRequest client0 ''R'')) = reply_status 400 \<and>
   fst (getValidToken (manager_in 300000 None) (env_of (reply_status 400) []) client0 None
     (world_at 2000000 (Holds (JSON_of (stored_token ''B'' (Some ''R'') 1000 1000000))))) =
     Returns None"
proof -
  let ?old = "stored_token ''B'' (Some ''R'') 1000 1000000"
  let ?w = "world_at 2000000 (Holds (JSON_of ?old))"
  let ?env = "env_of (reply_status 400) []"
  have h1: "tokenFiles ?w (tokenPath (manager_in 300000 None)) = Holds (JSON_of ?old)"
    by (rule world_at_file)
  have e: "isTokenExpired (manager_in 300000 None) 2000000 ?old"
    by (simp add: isTokenExpired_def manager_in_def stored_token_def truthy_number_def)
  have "clock ?w = 2000000" by (simp add: world_at_def)
  with e have h2: "isTokenExpired (manager_in 300000 None) (clock ?w) ?old" by simp
  have r: "refresh_token ?old = Some ''R''" by (simp add: stored_token_def)
  have f: "fst (fetch ?env (refreshRequest client0 ''R'')) = reply_status 400"
    by (simp add: env_of_def)
  have h3: "\<forall>r. refresh_token ?old = Some r \<longrightarrow>
           (\<exists>e. fst (fetch ?env (refreshRequest client0 r)) = Throws e) \<or>
           (\<exists>resp. fst (fetch ?env (refreshRequest client0 r)) = Returns resp \<and> \<not> ok resp)"
    by (simp add: env_of_def reply_status_def)
  from getValidToken_absent_when_refresh_fails [OF h1 h2 h3] h1 e r f show ?thesis by simp
qed

section \<open>The interactive flow\<close>

lemma authorize_listeners:
  "authorize env c opts r w = (a, srv, w1) \<Longrightarrow>
   listeners w1 = (case srv of None \<Rightarrow> listeners w | Some p \<Rightarrow> p # listeners w)"
  by (auto simp: authorize_def startLocalOAuthServer_def Let_def js_bind_def
      split: js_result.splits prod.splits if_splits option.splits)

lemma exchangeCode_listeners:
  "listeners (snd (exchangeCode env c r code w)) = listeners w"
  by (auto simp: exchangeCode_def Let_def js_bind_def split: js_result.splits)

lemma getToken_listeners:
  "listeners (snd (getToken env c opts w)) = listeners w"
proof (cases "js_bind (js_get c ''redirect_uris'') js_index0")
  case (Throws e)
  then show ?thesis by (simp add: getToken_def Let_def)
next
  case (Returns r)
  obtain a srv w1 where au:
    "authorize env c opts r (w\<lparr>journal := Call_getToken opts # journal w\<rparr>) = (a, srv, w1)"
    by (cases "authorize env c opts r (w\<lparr>journal := Call_getToken opts # journal w\<rparr>)") auto
  from authorize_listeners [OF au] Returns au show ?thesis
    by (auto simp: getToken_def Let_def exchangeCode_listeners split: js_result.splits option.splits)
qed

lemma waitForOAuthCallback_timeout:
  "\<forall>(t, ev)\<in>set events. (\<exists>q. ev = Request q) \<longrightarrow> T * 1000 \<le> t \<Longrightarrow>
   fst (waitForOAuthCallback T sig events) = None"
  by (induction events) (auto split: callback_event.splits option.splits)

lemma waitForOAuthCallback_abort:
  "sig \<noteq> None \<Longrightarrow> \<forall>(t', ev)\<in>set before. ev = Abort \<Longrightarrow>
   fst (waitForOAuthCallback T sig (before @ (t, Abort) # rest)) = None"
  by (induction before) (auto split: callback_event.splits option.splits)

lemma getToken_no_code:
  assumes "fst (waitForOAuthCallback (timeoutSeconds_or_300 opts) (flow_signal opts) (incoming env)) = None"
    and "js_get c ''redirect_uris'' = Returns (JArr uris)"
  shows "fst (getToken env c opts w) = Returns None"
  using assms
  by (auto simp: getToken_def authorize_def Let_def js_bind_def truthy_string_def
      split: js_result.splits prod.splits option.splits list.splits)

text \<open>
  C8, as stated, fails for a configured timeout of 0: \<^verbatim>\<open>options.timeoutSeconds || 300\<close>
  makes it 300 seconds, so a request that arrives after 100 seconds, not within the
  configured 0 seconds, is still taken and \<open>getToken\<close> returns a token.
\<close>

theorem getToken_zero_timeout_is_300:
  "flow_timeoutSeconds (flowOptions (Some 0) None) = Some 0 \<and>
   incoming (env_of (reply_ok (fresh_token 3600)) (code_request 100000)) =
     [(100000, Request (Some [(''code'', ''abc'')]))] \<and>
   fst (getToken (env_of (reply_ok (fresh_token 3600)) (code_request 100000)) goodCredentials
     (flowOptions (Some 0) None) (world_at 0 Missing)) = Returns (Some (fresh_token 3600))"
  by (simp add: getToken_def authorize_def startLocalOAuthServer_def exchangeCode_def
      timeoutSeconds_or_300_def query_param_def env_of_def reply_ok_def code_request_def
      goodCredentials_def flowOptions_def world_at_def js_bind_def try_catch_def
      truthy_number_def truthy_string_def Let_def)

text \<open>
  C8, amended. Whatever happens in \<open>getToken\<close>, on return the listeners are those from
  before the call: a server it started has been closed, also when it throws. And for
  credentials with a \<^verbatim>\<open>redirect_uris\<close> array it returns \<^verbatim>\<open>null\<close> when no request reaches
  the listener before the timeout in effect (\<open>timeoutSeconds\<close>, or 300 seconds when that is
  unset or 0), and when, a signal having been passed, its \<^verbatim>\<open>abort\<close> event reaches the
  wait before any request.
\<close>

theorem getToken_closes_listener:
  "listeners (snd (getToken env credentials options w)) = listeners w \<and>
   (js_get credentials ''redirect_uris'' = Returns (JArr uris) \<and>
    ((\<forall>(t, ev)\<in>set (incoming env).
        (\<exists>q. ev = Request q) \<longrightarrow> timeoutSeconds_or_300 options * 1000 \<le> t) \<or>
     (flow_signal options \<noteq> None \<and>
      (\<exists>before t rest. incoming env = before @ (t, Abort) # rest \<and>
         (\<forall>(t', ev)\<in>set before. ev = Abort))))
    \<longrightarrow> fst (getToken env credentials options w) = Returns None)"
proof (intro conjI impI)
  show "listeners (snd (getToken env credentials options w)) = listeners w"
    by (rule getToken_listeners)
next
  assume a: "js_get credentials ''redirect_uris'' = Returns (JArr uris) \<and>
    ((\<forall>(t, ev)\<in>set (incoming env).
        (\<exists>q. ev = Request q) \<longrightarrow> timeoutSeconds_or_300 options * 1000 \<le> t) \<or>
     (flow_signal options \<noteq> None \<and>
      (\<exists>before t rest. incoming env = before @ (t, Abort) # rest \<and>
         (\<forall>(t', ev)\<in>set before. ev = Abort))))"
  then have "fst (waitForOAuthCallback (timeoutSeconds_or_300 options) (flow_signal options)
      (incoming env)) = None"
    using waitForOAuthCallback_timeout [of "incoming env" "timeoutSeconds_or_300 options"]
      waitForOAuthCallback_abort [of "flow_signal options"]
    by auto
  with a show "fst (getToken env credentials options w) = Returns None"
    using getToken_no_code by blast
qed

theorem getToken_closes_listener_witness:
  "js_get goodCredentials ''redirect_uris'' = Returns (JArr [JStr ''http://localhost:3000'']) \<and>
   incoming (env_of (reply_ok (fresh_token 3600)) (code_request 400000)) =
     [(400000, Request (Some [(''code'', ''abc'')]))] \<and>
   timeoutSeconds_or_300 (flowOptions (Some 300) None) * 1000 = 300000 \<and>
   fst (getToken (env_of (reply_ok (fresh_token 3600)) (code_request 400000))
     goodCredentials (flowOptions (Some 300) None) (world_at 0 Missing)) = Returns None \<and>
   listeners (snd (getToken (env_of (reply_ok (fresh_token 3600)) (code_request 400000))
     goodCredentials (flowOptions (Some 300) None) (world_at 0 Missing))) = [] \<and>
   flow_signal (flowOptions (Some 300) (Some \<lparr>aborted = False\<rparr>)) = Some \<lparr>aborted = False\<rparr> \<and>
   incoming (env_of (reply_ok (fresh_token 3600)) ((1000, Abort) # code_request 4000)) =
     [] @ (1000, Abort) # code_request 4000 \<and>
   fst (getToken (env_of (reply_ok (fresh_token 3600)) ((1000, Abort) # code_request 4000))
     goodCredentials (flowOptions (Some 300) (Some \<lparr>aborted = False\<rparr>)) (world_at 0 Missing)) =
     Returns None"
proof -
  let ?env = "env_of (reply_ok (fresh_token 3600)) (code_request 400000)"
  let ?opts = "flowOptions (Some 300) None"
  let ?env' = "env_of (reply_ok (fresh_token 3600)) ((1000, Abort) # code_request 4000)"
  let ?opts' = "flowOptions (Some 300) (Some \<lparr>aborted = False\<rparr>)"
  have h1: "js_get goodCredentials ''redirect_uris'' = Returns (JArr [JStr ''http://localhost:3000''])"
    by (simp add: goodCredentials_def)
  have h2: "incoming ?env = [(400000, Request (Some [(''code'', ''abc'')]))]"
    by (simp add: env_of_def code_request_def)
  have h3: "timeoutSeconds_or_300 ?opts * 1000 = 300000"
    by (simp add: timeoutSeconds_or_300_def flowOptions_def truthy_number_def)
  have h4: "\<forall>(t, ev)\<in>set (incoming ?env).
      (\<exists>q. ev = Request q) \<longrightarrow> timeoutSeconds_or_300 ?opts * 1000 \<le> t"
    by (simp add: h2 h3)
  have h5: "listeners (world_at 0 Missing) = []"
    by (simp add: world_at_def)
  from getToken_closes_listener
    [of ?env goodCredentials ?opts "world_at 0 Missing" "[JStr ''http://localhost:3000'']"]
    h1 h4
  have timeout: "listeners (snd (getToken ?env goodCredentials ?opts (world_at 0 Missing))) =
      listeners (world_at 0 Missing) \<and>
    fst (getToken ?env goodCredentials ?opts (world_at 0 Missing)) = Returns None"
    by blast
  have a1: "flow_signal ?opts' = Some \<lparr>aborted = False\<rparr>"
    by (simp add: flowOptions_def)
  have a2: "incoming ?env' = [] @ (1000, Abort) # code_request 4000"
    by (simp add: env_of_def)
  have a3: "flow_signal ?opts' \<noteq> None \<and>
      (\<exists>before t rest. incoming ?env' = before @ (t, Abort) # rest \<and>
         (\<forall>(t', ev)\<in>set before. ev = Abort))"
  proof (intro conjI exI)
    show "flow_signal ?opts' \<noteq> None" by (simp add: a1)
    show "incoming ?env' = [] @ (1000, Abort) # code_request 4000" by (rule a2)
    show "\<forall>(t', ev)\<in>set []. ev = Abort" by simp
  qed
  from getToken_closes_listener
    [of ?env' goodCredentials ?opts' "world_at 0 Missing" "[JStr ''http://localhost:3000'']"]
    h1 a3
  have cancel: "fst (getToken ?env' goodCredentials ?opts' (world_at 0 Missing)) = Returns None"
    by blast
  from timeout cancel h1 h2 h3 h5 a1 a2 show ?thesis by simp
qed

text \<open>
  The listener is opened and closed in that run, in this order (the journal is newest
  first).
\<close>

lemma getToken_timeout_journal:
  "journal (snd (getToken (env_of (reply_ok (fresh_token 3600)) (code_request 400000))
     goodCredentials (flowOptions (Some 300) None) (world_at 0 Missing))) =
   [Close 3000,
    OpenBrowser (JStr ''https://provider/auth'')
      [(''client_id'', JStr ''id''), (''redirect_uri'', JStr ''http://localhost:3000''),
       (''scope'', JStr ''contacts''), (''response_type'', JStr ''code''),
       (''access_type'', JStr ''offline''), (''prompt'', JStr ''consent'')],
    Listen 3000,
    Call_getToken (flowOptions (Some 300) None)]"
  by (simp add: getToken_def authorize_def startLocalOAuthServer_def
      timeoutSeconds_or_300_def env_of_def code_request_def
      goodCredentials_def flowOptions_def world_at_def js_bind_def
      truthy_number_def truthy_string_def Let_def)

text \<open>
  A signal that is already aborted when the wait begins raises no \<^verbatim>\<open>abort\<close> event any
  more, and \<^verbatim>\<open>signal.aborted\<close> is not read: the request that follows is taken.
\<close>

lemma getToken_does_not_read_aborted:
  "fst (getToken (env_of (reply_ok (fresh_token 3600)) (code_request 4000)) goodCredentials
     (flowOptions (Some 300) (Some \<lparr>aborted = True\<rparr>)) (world_at 0 Missing)) =
   Returns (Some (fresh_token 3600))"
  by (simp add: getToken_def authorize_def startLocalOAuthServer_def exchangeCode_def
      timeoutSeconds_or_300_def query_param_def env_of_def reply_ok_def code_request_def
      goodCredentials_def flowOptions_def world_at_def js_bind_def try_catch_def
      truthy_number_def truthy_string_def Let_def)

section \<open>The orchestrator\<close>

lemma flow_calls_saveToken:
  "flow_calls (journal (saveToken mgr t w)) = flow_calls (journal w)"
  by (simp add: saveToken_def Let_def)

lemma flow_calls_refreshToken:
  "flow_calls (journal (snd (refreshToken env client r w))) = flow_calls (journal w)"
  by (simp add: refreshToken_def Let_def)

lemma tokenFiles_refreshToken:
  "tokenFiles (snd (refreshToken env client r w)) = tokenFiles w"
  by (simp add: refreshToken_def Let_def)

lemma flow_calls_exchangeCode:
  "flow_calls (journal (snd (exchangeCode env c r code w))) = flow_calls (journal w)"
  by (auto simp: exchangeCode_def Let_def js_bind_def split: js_result.splits)

lemma flow_calls_authorize:
  "authorize env c opts r w = (a, srv, w1) \<Longrightarrow> flow_calls (journal w1) = flow_calls (journal w)"
  by (auto simp: authorize_def startLocalOAuthServer_def Let_def js_bind_def
      split: js_result.splits prod.splits if_splits option.splits)

lemma flow_calls_getToken:
  "flow_calls (journal (snd (getToken env c opts w))) = opts # flow_calls (journal w)"
proof (cases "js_bind (js_get c ''redirect_uris'') js_index0")
  case (Throws e)
  then show ?thesis by (simp add: getToken_def Let_def)
next
  case (Returns r)
  obtain a srv w1 where au:
    "authorize env c opts r (w\<lparr>journal := Call_getToken opts # journal w\<rparr>) = (a, srv, w1)"
    by (cases "authorize env c opts r (w\<lparr>journal := Call_getToken opts # journal w\<rparr>)") auto
  from flow_calls_authorize [OF au] Returns au show ?thesis
    by (auto simp: getToken_def Let_def flow_calls_exchangeCode split: js_result.splits option.splits)
qed

lemma effectivePrompt_Returns:
  "\<exists>p. effectivePrompt mgr options want w = Returns p \<and>
     (\<forall>q. auth_prompt options = Some q \<longrightarrow> p = Some q) \<and>
     (auth_prompt options = None \<and> want \<and>
      (getStoredToken mgr w = Returns None \<or>
       (\<exists>t. getStoredToken mgr w = Returns (Some t) \<and> \<not> truthy_string (refresh_token t)))
      \<longrightarrow> p = Some consent)"
  using getStoredToken_Returns [of mgr w]
  by (auto simp: effectivePrompt_def js_bind_def split: option.splits)

lemma startAuthentication_calls:
  "\<exists>opts. flow_calls (journal (snd (startAuthentication env mgr c options want w))) =
            opts # flow_calls (journal w) \<and>
     (\<forall>q. auth_prompt options = Some q \<longrightarrow> flow_prompt opts = Some q) \<and>
     (auth_prompt options = None \<and> want \<and>
      (getStoredToken mgr w = Returns None \<or>
       (\<exists>t. getStoredToken mgr w = Returns (Some t) \<and> \<not> truthy_string (refresh_token t)))
      \<longrightarrow> flow_prompt opts = Some consent)"
proof -
  from effectivePrompt_Returns [of mgr options want w] obtain p where
    p: "effectivePrompt mgr options want w = Returns p"
    and q: "\<forall>q. auth_prompt options = Some q \<longrightarrow> p = Some q"
    and r: "auth_prompt options = None \<and> want \<and>
      (getStoredToken mgr w = Returns None \<or>
       (\<exists>t. getStoredToken mgr w = Returns (Some t) \<and> \<not> truthy_string (refresh_token t)))
      \<longrightarrow> p = Some consent"
    by blast
  show ?thesis
    using q r by (simp add: startAuthentication_def p flow_calls_getToken)
qed

lemma authenticationNeeded_calls:
  "flow_calls (journal (snd (authenticationNeeded mgr (Some cb) w))) =
   flow_calls (journal (snd (cb w)))"
  by (auto simp: authenticationNeeded_def flow_calls_saveToken
      split: prod.splits js_result.splits option.splits)

lemma getValidToken_calls:
  "flow_calls (journal (snd (getValidToken mgr env client
       (Some (startAuthentication env mgr c options want)) w))) = flow_calls (journal w) \<or>
   (\<exists>opts. flow_calls (journal (snd (getValidToken mgr env client
       (Some (startAuthentication env mgr c options want)) w))) = opts # flow_calls (journal w) \<and>
     (\<forall>q. auth_prompt options = Some q \<longrightarrow> flow_prompt opts = Some q) \<and>
     (auth_prompt options = None \<and> want \<and>
      (getStoredToken mgr w = Returns None \<or>
       (\<exists>t. getStoredToken mgr w = Returns (Some t) \<and> \<not> truthy_string (refresh_token t)))
      \<longrightarrow> flow_prompt opts = Some consent))"
  (is "?same \<or> ?called")
proof -
  let ?cb = "startAuthentication env mgr c options want"
  have needed: "?called"
    if "getValidToken mgr env client (Some ?cb) w = authenticationNeeded mgr (Some ?cb) w1"
      and "tokenFiles w1 = tokenFiles w" and "flow_calls (journal w1) = flow_calls (journal w)"
    for w1
  proof -
    have "getStoredToken mgr w1 = getStoredToken mgr w"
      using that(2) by (rule getStoredToken_tokenFiles)
    with startAuthentication_calls [of env mgr c options want w1] that(1,3)
    show ?thesis by (simp add: authenticationNeeded_calls)
  qed
  from getStoredToken_Returns obtain st where st: "getStoredToken mgr w = Returns st" by blast
  show ?thesis
  proof (cases st)
    case None
    with st have "getValidToken mgr env client (Some ?cb) w = authenticationNeeded mgr (Some ?cb) w"
      by (simp add: getValidToken_def)
    then show ?thesis using needed by blast
  next
    case (Some t)
    show ?thesis
    proof (cases "isTokenExpired mgr (clock w) t")
      case False
      with st Some show ?thesis by (simp add: getValidToken_def)
    next
      case expired: True
      show ?thesis
      proof (cases "truthy_string (refresh_token t)")
        case False
        with st Some expired
        have "getValidToken mgr env client (Some ?cb) w = authenticationNeeded mgr (Some ?cb) w"
          by (simp add: getValidToken_def)
        then show ?thesis using needed by blast
      next
        case True
        obtain res w1 where rt: "refreshToken env client (the (refresh_token t)) w = (res, w1)"
          by (cases "refreshToken env client (the (refresh_token t)) w") auto
        then have w1: "tokenFiles w1 = tokenFiles w" "flow_calls (journal w1) = flow_calls (journal w)"
          using tokenFiles_refreshToken [of env client "the (refresh_token t)" w]
            flow_calls_refreshToken [of env client "the (refresh_token t)" w] by simp_all
        show ?thesis
        proof (cases res)
          case (Throws e)
          with st Some expired True rt w1 show ?thesis by (simp add: getValidToken_def)
        next
          case (Returns fresh)
          show ?thesis
          proof (cases fresh)
            case None
            with st Some expired True rt Returns
            have "getValidToken mgr env client (Some ?cb) w = authenticationNeeded mgr (Some ?cb) w1"
              by (simp add: getValidToken_def)
            then show ?thesis using needed w1 by blast
          next
            case (Some f)
            with st \<open>st = Some t\<close> expired True rt Returns w1 show ?thesis
              by (simp add: getValidToken_def Let_def flow_calls_saveToken)
          qed
        qed
      qed
    qed
  qed
qed

lemma getValidToken_invokes:
  assumes "getStoredToken mgr w = Returns None \<or>
       (\<exists>t. getStoredToken mgr w = Returns (Some t) \<and> isTokenExpired mgr (clock w) t \<and>
            \<not> truthy_string (refresh_token t))"
  shows "flow_calls (journal (snd (getValidToken mgr env client
       (Some (startAuthentication env mgr c options want)) w))) \<noteq> flow_calls (journal w)"
proof -
  let ?cb = "startAuthentication env mgr c options want"
  from assms have "getValidToken mgr env client (Some ?cb) w = authenticationNeeded mgr (Some ?cb) w"
    by (auto simp: getValidToken_def)
  then show ?thesis
    using startAuthentication_calls [of env mgr c options want w]
    by (auto simp: authenticationNeeded_calls)
qed

lemma loadCredentials_goodCredentials:
  "loadCredentials w goodCredentials None = Returns (Some goodCredentials)"
  by (simp add: loadCredentials_def selectCredentials_def goodCredentials_def
      missingRequiredFields_def js_bind_def truthy_string_def is_inherited_code_keys)

text \<open>
  A key that every object inherits selects the inherited method, which has none of the
  required fields: the load fails although the object itself holds complete credentials.
\<close>

lemma loadCredentials_inherited_key:
  "loadCredentials w goodCredentials (Some ''toString'') = Returns None"
  by (simp add: loadCredentials_def selectCredentials_def goodCredentials_def
      missingRequiredFields_def js_bind_def truthy_string_def inherited_toString
      js_inherited_code_keys)

lemma tokenManagerOptions_authOptions:
  "new_OAuthTokenManager (tokenManagerOptions (env_of reply events) (authOptions q)) =
     Returns (manager_in 300000 None)"
  by (simp add: new_OAuthTokenManager_def tokenManagerOptions_def authOptions_def manager_in_def
      truthy_string_def truthy_number_def path_join_def)

text \<open>
  C6, as stated, fails for a stored token that is still valid and has no refresh token.
  Offline access is wanted and the caller gave no prompt, yet \<open>authenticateOAuth\<close> returns
  the stored token as it is: \<open>getValidToken\<close> returns before the callback runs, the flow is
  not called, and no prompt is chosen.
\<close>

theorem authenticateOAuth_valid_token_no_flow:
  "auth_prompt (authOptions None) = None \<and>
   auth_includeOfflineAccess (authOptions None) = None \<and>
   getStoredToken (manager_in 300000 None)
     (world_at 500000 (Holds (JSON_of (stored_token ''B'' None 1000 1000000)))) =
     Returns (Some (stored_token ''B'' None 1000 1000000)) \<and>
   refresh_token (stored_token ''B'' None 1000 1000000) = None \<and>
   authenticateOAuth (env_of (reply_ok (fresh_token 3600)) (code_request 4000)) goodCredentials
     (authOptions None) (world_at 500000 (Holds (JSON_of (stored_token ''B'' None 1000 1000000)))) =
     (Returns (Some (stored_token ''B'' None 1000 1000000)),
      world_at 500000 (Holds (JSON_of (stored_token ''B'' None 1000 1000000)))) \<and>
   flow_calls (journal (snd (authenticateOAuth
     (env_of (reply_ok (fresh_token 3600)) (code_request 4000)) goodCredentials
     (authOptions None) (world_at 500000 (Holds (JSON_of (stored_token ''B'' None 1000 1000000))))))) = []"
proof -
  let ?t = "stored_token ''B'' None 1000 1000000"
  let ?w = "world_at 500000 (Holds (JSON_of ?t))"
  let ?env = "env_of (reply_ok (fresh_token 3600)) (code_request 4000)"
  let ?mgr = "manager_in 300000 None"
  have p: "auth_prompt (authOptions None) = None"
    and o: "auth_includeOfflineAccess (authOptions None) = None"
    and k: "auth_credentialsKey (authOptions None) = None"
    by (simp_all add: authOptions_def)
  have s: "getStoredToken ?mgr ?w = Returns (Some ?t)"
    by (rule getStoredToken_Holds) (rule world_at_file)
  have r: "refresh_token ?t = None" by (simp add: stored_token_def)
  have v: "\<not> isTokenExpired ?mgr (clock ?w) ?t"
    by (simp add: isTokenExpired_def manager_in_def stored_token_def truthy_number_def world_at_def)
  have g: "getValidToken ?mgr ?env client cb ?w = (Returns (Some ?t), ?w)" for client cb
    using s v by (simp add: getValidToken_def)
  have c: "js_bind (js_get goodCredentials ''client_id'') (\<lambda>client_id.
             js_bind (js_get goodCredentials ''client_secret'') (\<lambda>client_secret.
               js_bind (js_get goodCredentials ''token_uri'') (\<lambda>token_uri.
                 Returns \<lparr>clientId = client_id, clientSecret = client_secret,
                          tokenUri = token_uri\<rparr>))) = Returns client0"
    by (simp add: goodCredentials_def client0_def js_bind_def)
  have a: "authenticateOAuth ?env goodCredentials (authOptions None) ?w = (Returns (Some ?t), ?w)"
    by (simp add: authenticateOAuth_def k loadCredentials_goodCredentials
        tokenManagerOptions_authOptions c g Let_def)
  have j: "flow_calls (journal ?w) = []" by (simp add: world_at_def)
  from p o s r a j show ?thesis by simp
qed

text \<open>
  C6, amended. \<open>authenticateOAuth\<close> calls the interactive flow at most once, and it does
  call it when the credentials load and the store has no token, or an expired one without
  a refresh token. In a call, a prompt given by the caller is passed on as it is; and when
  the caller gave none, offline access is wanted (\<open>includeOfflineAccess\<close> is not \<^verbatim>\<open>false\<close>)
  and the store has no token or a token without a refresh token, the prompt is \<open>consent\<close>.
\<close>

theorem authenticateOAuth_prompt:
  assumes "new_OAuthTokenManager (tokenManagerOptions env options) = Returns mgr"
  shows "(flow_calls (journal (snd (authenticateOAuth env src options w))) = flow_calls (journal w) \<or>
     (\<exists>opts. flow_calls (journal (snd (authenticateOAuth env src options w))) =
              opts # flow_calls (journal w) \<and>
        (\<forall>p. auth_prompt options = Some p \<longrightarrow> flow_prompt opts = Some p) \<and>
        (auth_prompt options = None \<and> auth_includeOfflineAccess options \<noteq> Some False \<and>
         (getStoredToken mgr w = Returns None \<or>
          (\<exists>t. getStoredToken mgr w = Returns (Some t) \<and> \<not> truthy_string (refresh_token t)))
         \<longrightarrow> flow_prompt opts = Some consent))) \<and>
    ((\<exists>c. loadCredentials w src (auth_credentialsKey options) = Returns (Some c)) \<and>
     (getStoredToken mgr w = Returns None \<or>
       (\<exists>t. getStoredToken mgr w = Returns (Some t) \<and> isTokenExpired mgr (clock w) t \<and>
            \<not> truthy_string (refresh_token t)))
     \<longrightarrow> flow_calls (journal (snd (authenticateOAuth env src options w))) \<noteq> flow_calls (journal w))"
proof (cases "loadCredentials w src (auth_credentialsKey options)")
  case (Throws e)
  then show ?thesis by (simp add: authenticateOAuth_def)
next
  case (Returns loaded)
  show ?thesis
  proof (cases loaded)
    case None
    with Returns show ?thesis by (simp add: authenticateOAuth_def)
  next
    case (Some c)
    from Some Returns have "missingRequiredFields c = Returns False"
      by (auto simp: loadCredentials_def js_bind_def split: js_result.splits option.splits if_splits)
    then obtain client where client: "js_bind (js_get c ''client_id'') (\<lambda>client_id.
                     js_bind (js_get c ''client_secret'') (\<lambda>client_secret.
                       js_bind (js_get c ''token_uri'') (\<lambda>token_uri.
                         Returns \<lparr>clientId = client_id, clientSecret = client_secret,
                                  tokenUri = token_uri\<rparr>))) = Returns client"
      by (auto simp: missingRequiredFields_def js_bind_def split: js_result.splits if_splits)
    have eq: "authenticateOAuth env src options w =
       getValidToken mgr env client
         (Some (startAuthentication env mgr c options (auth_includeOfflineAccess options \<noteq> Some False))) w"
      using Returns Some assms client by (simp add: authenticateOAuth_def Let_def)
    show ?thesis
      unfolding eq
      using getValidToken_calls [of mgr env client c options "auth_includeOfflineAccess options \<noteq> Some False" w]
        getValidToken_invokes [of mgr w env client c options "auth_includeOfflineAccess options \<noteq> Some False"]
      by blast
  qed
qed

theorem authenticateOAuth_prompt_witness:
  "new_OAuthTokenManager (tokenManagerOptions (env_of (reply_ok (fresh_token 3600)) [])
      (authOptions None)) = Returns (manager_in 300000 None) \<and>
   auth_prompt (authOptions None) = None \<and>
   auth_includeOfflineAccess (authOptions None) = None \<and>
   getStoredToken (manager_in 300000 None) (world_at 0 Missing) = Returns None \<and>
   (\<exists>opts. flow_calls (journal (snd (authenticateOAuth (env_of (reply_ok (fresh_token 3600)) [])
               goodCredentials (authOptions None) (world_at 0 Missing)))) = [opts] \<and>
           flow_prompt opts = Some consent) \<and>
   auth_prompt (authOptions (Some select_account)) = Some select_account \<and>
   (\<exists>opts. flow_calls (journal (snd (authenticateOAuth (env_of (reply_ok (fresh_token 3600)) [])
               goodCredentials (authOptions (Some select_account)) (world_at 0 Missing)))) = [opts] \<and>
           flow_prompt opts = Some select_account)"
proof -
  let ?env = "env_of (reply_ok (fresh_token 3600)) []"
  let ?w = "world_at 0 Missing"
  have h: "new_OAuthTokenManager (tokenManagerOptions ?env (authOptions q)) =
      Returns (manager_in 300000 None)" for q
    by (simp add: new_OAuthTokenManager_def tokenManagerOptions_def authOptions_def manager_in_def
        truthy_string_def truthy_number_def path_join_def)
  have p: "auth_prompt (authOptions q) = q"
    and o: "auth_includeOfflineAccess (authOptions q) = None"
    and k: "auth_credentialsKey (authOptions q) = None" for q
    by (simp_all add: authOptions_def)
  have s: "getStoredToken (manager_in 300000 None) ?w = Returns None"
    by (simp add: getStoredToken_def hasStoredToken_def existsSync_def world_at_def manager_in_def)
  have l: "\<exists>c. loadCredentials ?w goodCredentials (auth_credentialsKey (authOptions q)) =
      Returns (Some c)" for q
    by (simp add: k loadCredentials_goodCredentials)
  have j: "flow_calls (journal ?w) = []"
    by (simp add: world_at_def)
  from authenticateOAuth_prompt [OF h [of None], of goodCredentials ?w] p [of None] o [of None] s
    l [of None]
  have forced: "\<exists>opts. flow_calls (journal (snd (authenticateOAuth ?env goodCredentials
            (authOptions None) ?w))) = opts # flow_calls (journal ?w) \<and>
          flow_prompt opts = Some consent"
    by auto
  from authenticateOAuth_prompt [OF h [of "Some select_account"], of goodCredentials ?w]
    p [of "Some select_account"] s l [of "Some select_account"]
  have kept: "\<exists>opts. flow_calls (journal (snd (authenticateOAuth ?env goodCredentials
            (authOptions (Some select_account)) ?w))) = opts # flow_calls (journal ?w) \<and>
          flow_prompt opts = Some select_account"
    by auto
  from forced kept h [of None] p [of None] p [of "Some select_account"] o [of None] s j
  show ?thesis by simp
qed

section \<open>Loading credentials\<close>

lemma loadCredentialsFromFile_Returns:
  "\<exists>r. loadCredentialsFromFile w filePath credentialsKey = Returns r"
  by (auto simp: loadCredentialsFromFile_def try_catch_def split: js_result.splits)

lemma missingRequiredFields_False:
  "missingRequiredFields c = Returns False \<Longrightarrow>
   (\<exists>a. js_get c ''client_id'' = Returns a \<and> truthy a) \<and>
   (\<exists>a. js_get c ''client_secret'' = Returns a \<and> truthy a) \<and>
   (\<exists>a. js_get c ''auth_uri'' = Returns a \<and> truthy a) \<and>
   (\<exists>a. js_get c ''token_uri'' = Returns a \<and> truthy a)"
  by (auto simp: missingRequiredFields_def js_bind_def split: js_result.splits if_splits)

text \<open>What holds of the claim: loaded credentials have the four fields, none of them empty.\<close>

lemma loadCredentials_validates:
  assumes "loadCredentials w src credentialsKey = Returns (Some c)"
  shows "(\<exists>a. js_get c ''client_id'' = Returns a \<and> truthy a) \<and>
   (\<exists>a. js_get c ''client_secret'' = Returns a \<and> truthy a) \<and>
   (\<exists>a. js_get c ''auth_uri'' = Returns a \<and> truthy a) \<and>
   (\<exists>a. js_get c ''token_uri'' = Returns a \<and> truthy a)"
proof -
  from assms have "missingRequiredFields c = Returns False"
    by (auto simp: loadCredentials_def js_bind_def split: js_result.splits option.splits if_splits)
  then show ?thesis by (rule missingRequiredFields_False)
qed

lemma loadCredentialsFromFile_Some:
  "loadCredentialsFromFile w filePath credentialsKey = Returns (Some c) \<Longrightarrow>
   missingRequiredFields c = Returns False"
  by (auto simp: loadCredentialsFromFile_def try_catch_def js_bind_def
      split: js_result.splits if_splits)

text \<open>From a file path, loading never throws.\<close>

lemma loadCredentials_file_never_throws:
  "\<exists>r. loadCredentials w (JStr filePath) credentialsKey = Returns r"
proof -
  from loadCredentialsFromFile_Returns obtain r where
    r: "loadCredentialsFromFile w filePath credentialsKey = Returns r"
    by blast
  show ?thesis
  proof (cases r)
    case None
    with r show ?thesis by (simp add: loadCredentials_def selectCredentials_def js_bind_def)
  next
    case (Some c)
    with r loadCredentialsFromFile_Some [of w filePath credentialsKey c] show ?thesis
      by (simp add: loadCredentials_def selectCredentials_def js_bind_def)
  qed
qed

text \<open>
  C7 does not hold of the code. For a file path without a key, the nesting keys are not
  tried: the file \<^verbatim>\<open>{"installed": {...}}\<close> with complete credentials loads as \<^verbatim>\<open>null\<close>,
  while the same value given as an object loads.
\<close>

theorem loadCredentials_file_path_no_autodetect:
  "loadCredentials
     (world_with_credentials (Holds (JSON_of (JObj [(''installed'', goodCredentials)]))))
     (JStr ''credentials.json'') None = Returns None \<and>
   loadCredentials (world_with_credentials Missing)
     (JObj [(''installed'', goodCredentials)]) None = Returns (Some goodCredentials)"
  by (simp add: loadCredentials_def selectCredentials_def loadCredentialsFromFile_def
      world_with_credentials_def goodCredentials_def existsSync_def readFileSync_def
      JSON_parse_def missingRequiredFields_def js_bind_def try_catch_def truthy_string_def
      is_inherited_code_keys js_inherited_code_keys)

text \<open>
  And for an object whose nesting key holds \<^verbatim>\<open>null\<close>, reading the required fields throws
  a TypeError that nothing catches.
\<close>

lemma loadCredentials_null_nested_throws:
  "loadCredentials (world_with_credentials Missing) (JObj [(''installed'', JNull)]) None =
     Throws TypeError \<and>
   fst (authenticateOAuth env (JObj [(''installed'', JNull)]) (authOptions None)
     (world_with_credentials Missing)) = Throws TypeError"
  by (simp add: authenticateOAuth_def authOptions_def loadCredentials_def selectCredentials_def
      missingRequiredFields_def js_bind_def truthy_string_def is_inherited_code_keys)


end
